theory Spec2Isabelle
  imports Main
begin

section \<open>Python values used by the two adapters\<close>

text \<open>
  Exceptions of the Python code are values. \<open>Exception\<close> carries the message of an
  explicit \<open>raise Exception(...)\<close>; \<open>ArrayError\<close> is a failure reported by the external
  grid-array reader, tagged with the label it was called with.
\<close>

datatype error =
    IndexError
  | ValueError
  | TypeError
  | AttributeError
  | NameError
  | KeyError
  | ShapeError
  | OverflowError
  | Exception string
  | ArrayError string

subsection \<open>Whitespace splitting: \<open>line.strip().split()\<close>\<close>

text \<open>
  A \<open>char\<close> stands for a code point below 256; text with other code points is outside
  this model. The whitespace of \<open>str.split\<close>, \<open>str.strip\<close> and \<open>int\<close> in Python 3 is, in
  that range: tab, newline, vertical tab, form feed, carriage return, the four separators
  \<open>0x1C\<close> to \<open>0x1F\<close>, blank, \<open>0x85\<close> and \<open>0xA0\<close>.
\<close>

definition is_space :: "char \<Rightarrow> bool" where
  "is_space c = (c \<in> set [CHR 0x09, CHR 0x0A, CHR 0x0B, CHR 0x0C, CHR 0x0D, CHR 0x1C, CHR 0x1D,
                            CHR 0x1E, CHR 0x1F, CHR 0x20, CHR 0x85, CHR 0xA0])"

definition strip_ws :: "string \<Rightarrow> string" where
  "strip_ws s = rev (dropWhile is_space (rev (dropWhile is_space s)))"

text \<open>
  \<open>tokens_acc cur s\<close> scans \<open>s\<close> with the token \<open>cur\<close> begun so far; a whitespace
  character closes the token, runs of whitespace produce no empty token.
\<close>

primrec tokens_acc :: "string \<Rightarrow> string \<Rightarrow> string list" where
  "tokens_acc cur [] = (if cur = [] then [] else [cur])"
| "tokens_acc cur (c # cs) =
     (if is_space c then (if cur = [] then tokens_acc [] cs else cur # tokens_acc [] cs)
      else tokens_acc (cur @ [c]) cs)"

definition split_ws :: "string \<Rightarrow> string list" where
  "split_ws s = tokens_acc [] s"

subsection \<open>Integers: \<open>int(token)\<close> and \<open>'{}'.format(i)\<close>\<close>

definition digit_val :: "char \<Rightarrow> nat option" where
  "digit_val c =
     map_of [(CHR ''0'', 0), (CHR ''1'', 1), (CHR ''2'', 2), (CHR ''3'', 3), (CHR ''4'', 4),
             (CHR ''5'', 5), (CHR ''6'', 6), (CHR ''7'', 7), (CHR ''8'', 8), (CHR ''9'', 9)] c"

primrec nat_of_digits :: "nat \<Rightarrow> string \<Rightarrow> nat option" where
  "nat_of_digits acc [] = Some acc"
| "nat_of_digits acc (c # cs) =
     (case digit_val c of None \<Rightarrow> None | Some d \<Rightarrow> nat_of_digits (10 * acc + d) cs)"

text \<open>Underscores may separate the digits of a numeral, one at a time and never at its
  ends; \<open>drop_underscores\<close> removes them or refuses the numeral.\<close>

fun drop_underscores :: "bool \<Rightarrow> string \<Rightarrow> string option" where
  "drop_underscores prev [] = (if prev then Some [] else None)"
| "drop_underscores prev (c # cs) =
     (if c = CHR ''_'' then (if prev then drop_underscores False cs else None)
      else map_option ((#) c) (drop_underscores True cs))"

text \<open>
  \<open>int(s)\<close> in Python 3: surrounding whitespace is ignored, then an optional sign and a
  decimal numeral; anything else raises ValueError.
\<close>

definition int_of_str :: "string \<Rightarrow> error + int" where
  "int_of_str s =
     (case strip_ws s of
        [] \<Rightarrow> Inl ValueError
      | c # cs \<Rightarrow>
          (case drop_underscores False
                  (if c = CHR ''-'' \<or> c = CHR ''+'' then cs else c # cs) of
             None \<Rightarrow> Inl ValueError
           | Some ds \<Rightarrow>
               (case nat_of_digits 0 ds of
                  None \<Rightarrow> Inl ValueError
                | Some n \<Rightarrow> Inr (if c = CHR ''-'' then - int n else int n))))"

definition digit_char :: "nat \<Rightarrow> char" where
  "digit_char d = ''0123456789'' ! (d mod 10)"

fun str_nat :: "nat \<Rightarrow> string" where
  "str_nat n = (if n < 10 then [digit_char n] else str_nat (n div 10) @ [digit_char (n mod 10)])"

declare str_nat.simps [simp del]

definition str_int :: "int \<Rightarrow> string" where
  "str_int i = (if i < 0 then CHR ''-'' # str_nat (nat (- i)) else str_nat (nat i))"

text \<open>\<open>'{:10d}'.format(i)\<close>: right-aligned in a field of the given width.\<close>

definition rjust :: "nat \<Rightarrow> string \<Rightarrow> string" where
  "rjust w s = replicate (w - length s) CHR '' '' @ s"

definition fmt_d :: "nat \<Rightarrow> int \<Rightarrow> string" where
  "fmt_d w i = rjust w (str_int i)"

subsection \<open>Integer arrays: \<open>dtype=np.int\<close>\<close>

text \<open>
  An array created with \<open>dtype=np.int\<close> holds fixed-width signed integers, 64 bits wide
  here (the C \<open>long\<close> of the platform). Assigning a Python integer outside that range to
  an element raises OverflowError; arithmetic on the array itself wraps around.
\<close>

definition np_int_ok :: "int \<Rightarrow> bool" where
  "np_int_ok v = (- (2 ^ 63) \<le> v \<and> v < 2 ^ 63)"

definition np_store :: "int \<Rightarrow> error + int" where
  "np_store v = (if np_int_ok v then Inr v else Inl OverflowError)"

definition np_wrap :: "int \<Rightarrow> int" where
  "np_wrap v = (v + 2 ^ 63) mod 2 ^ 64 - 2 ^ 63"

section \<open>Collaborators of the adapters\<close>

text \<open>Sequencing of fallible steps: the first raised exception ends the computation.\<close>

definition bindE :: "error + 'a \<Rightarrow> ('a \<Rightarrow> error + 'b) \<Rightarrow> error + 'b" where
  "bindE r f = (case r of Inl e \<Rightarrow> Inl e | Inr x \<Rightarrow> f x)"

text \<open>
  The host model (class \<open>Modflow\<close>, not among these sources) owns the grid dimensions,
  the list of registered packages, the bookkeeping of external unit numbers and, for the
  UPW adapter, the DIS package with its per-period \<open>steady\<close> flags and per-layer
  \<open>laycbd\<close> flags. Only what the two adapters read or change is kept.
\<close>

record ModflowDis =
  steady :: "bool list"
  laycbd :: "int list"

record 'p Modflow =
  nrow :: nat
  ncol :: nat
  nlay :: nat
  nper :: int
  verbose :: bool
  version :: string
  packagelist :: "'p list"
  pop_key_list :: "int list"
  dis :: "ModflowDis option"

text \<open>
  Modelled from the spec: \<open>register_package(self)\<close> (\<open>add_package\<close> of the host model)
  appends the package to the host's package list.
\<close>

definition add_package :: "'p Modflow \<Rightarrow> 'p \<Rightarrow> 'p Modflow" where
  "add_package m p = m\<lparr>packagelist := packagelist m @ [p]\<rparr>"

text \<open>
  Modelled from the spec: \<open>register_external_unit\<close> (\<open>add_pop_key_list\<close> of the host
  model) records the original unit number in the host's external-unit bookkeeping.
\<close>

definition add_pop_key_list :: "'p Modflow \<Rightarrow> int \<Rightarrow> 'p Modflow" where
  "add_pop_key_list m u = m\<lparr>pop_key_list := pop_key_list m @ [u]\<rparr>"

text \<open>
  Modelled from the spec: the array wrappers \<open>util_2d\<close> and \<open>util_3d\<close> (\<open>flopy.utils\<close>,
  not among these sources). The spec's invariant is that the leading dimension of every
  array-valued field equals the count that governs it, a mismatch being a ShapeError
  (and \<open>None\<close> cannot be wrapped at all); the wrapped value is the data itself. A two-dimensional grid is a value of the type
  parameter \<open>'a\<close>.
\<close>

definition util_2d :: "int \<Rightarrow> 'b list option \<Rightarrow> error + 'b list" where
  "util_2d n v =
     (case v of None \<Rightarrow> Inl TypeError
      | Some xs \<Rightarrow> if int (length xs) = n then Inr xs else Inl ShapeError)"

definition util_3d :: "int \<Rightarrow> 'a list option \<Rightarrow> error + 'a list" where
  "util_3d n v =
     (case v of None \<Rightarrow> Inl TypeError
      | Some xs \<Rightarrow> if int (length xs) = n then Inr xs else Inl ShapeError)"

text \<open>
  What the adapters take from outside this repository is a parameter of the model, the
  record \<open>platform\<close>. Python's floats are values of the type parameter \<open>'f\<close>:
  \<open>float_of\<close> is \<open>float(token)\<close>, \<open>float_str\<close> is \<open>'{}'.format(x)\<close>, \<open>float_g w p upper\<close> is
  \<open>'{:w.pg}'.format(x)\<close> (\<open>G\<close> when \<open>upper\<close>), \<open>float32\<close> is the rounding of a value stored
  in an \<open>np.float32\<close> array, \<open>float_lt_one\<close> is \<open>x < 1\<close> and \<open>float_int\<close> the conversion of a
  float stored with \<open>dtype=np.int\<close>. The grid-array utility works on grids of type \<open>'a\<close>:
  \<open>u2d_load (nrow, ncol) is_int label lines\<close> is \<open>util_2d.load\<close> on a file handle whose
  unread lines are \<open>lines\<close> (it returns the array and the lines it left), and
  \<open>get_file_entry\<close> renders an array as text.
\<close>

record ('a, 'f) platform =
  float_of :: "string \<Rightarrow> error + 'f"
  float_str :: "'f \<Rightarrow> string"
  float_g :: "nat \<Rightarrow> nat \<Rightarrow> bool \<Rightarrow> 'f \<Rightarrow> string"
  float32 :: "'f \<Rightarrow> 'f"
  float_lt_one :: "'f \<Rightarrow> bool"
  float_int :: "'f \<Rightarrow> int"
  u2d_load :: "nat \<times> nat \<Rightarrow> bool \<Rightarrow> string \<Rightarrow> string list \<Rightarrow> error + ('a \<times> string list)"
  get_file_entry :: "'a \<Rightarrow> string"

section \<open>The SUB package: \<open>mfsub.py\<close>\<close>

subsection \<open>Data model\<close>

text \<open>\<open>dp\<close> and \<open>ids16\<close> are numpy arrays whose number of dimensions matters to the
  code: \<open>np.array\<close> of a flat list is one-dimensional, of a list of rows two-dimensional.\<close>

datatype 'f dptab = Dp1 "'f list" | Dp2 "'f list list"

datatype ids16tab = Ids1 "int list" | Ids2 "int list list"

text \<open>
  The attributes of a \<open>ModflowSub\<close> object. An array attribute that is \<open>None\<close>, or that
  the constructor never assigned (\<open>com\<close>, \<open>dcom\<close>, \<open>ids15\<close>, \<open>ids16\<close>), is \<open>None\<close> here.
  \<open>extension\<close>, \<open>name\<close>, \<open>unit_number\<close> and \<open>extra\<close> are what \<open>Package.__init__\<close> is
  given.
\<close>

record ('a, 'f) ModflowSub =
  extension :: "string list"
  name :: "string list"
  unit_number :: "int list"
  extra :: "string list"
  heading :: string
  isubcb :: int
  isuboc :: int
  idsave :: int
  idrest :: int
  nndb :: int
  ndb :: int
  nmz :: int
  nn :: int
  ac1 :: "'f"
  ac2 :: "'f"
  itmin :: int
  ln :: "int list option"
  hc :: "'a list option"
  sfe :: "'a list option"
  sfv :: "'a list option"
  com :: "'a list option"
  ldn :: "int list option"
  rnb :: "'a list option"
  dstart :: "'a list option"
  dhc :: "'a list option"
  dcom :: "'a list option"
  dz :: "'a list option"
  nz :: "'a list option"
  dp :: "'f dptab option"
  ids15 :: "int list option"
  ids16 :: "int list list option"

text \<open>The keyword arguments of \<open>ModflowSub.__init__\<close>.\<close>

record ('a, 'f) sub_kwargs =
  kw_isubcb :: int
  kw_isuboc :: int
  kw_idsave :: int
  kw_idrest :: int
  kw_nndb :: int
  kw_ndb :: int
  kw_nmz :: int
  kw_nn :: int
  kw_ac1 :: "'f"
  kw_ac2 :: "'f"
  kw_itmin :: int
  kw_ln :: "int list option"
  kw_ldn :: "int list option"
  kw_rnb :: "'a list option"
  kw_hc :: "'a list option"
  kw_sfe :: "'a list option"
  kw_sfv :: "'a list option"
  kw_com :: "'a list option"
  kw_dp :: "'f dptab option"
  kw_dstart :: "'a list option"
  kw_dhc :: "'a list option"
  kw_dcom :: "'a list option"
  kw_dz :: "'a list option"
  kw_nz :: "'a list option"
  kw_ids15 :: "int list option"
  kw_ids16 :: "ids16tab option"
  kw_extension :: string
  kw_unit_number :: int

subsection \<open>The constructor \<open>ModflowSub.__init__\<close>\<close>

text \<open>No-delay bed data: assigned only under \<open>nndb > 0\<close>, otherwise \<open>ln\<close>, \<open>hc\<close>, \<open>sfe\<close> and
  \<open>sfv\<close> are \<open>None\<close> and \<open>com\<close> is not assigned.\<close>

definition sub_nodelay ::
  "('a, 'f) sub_kwargs \<Rightarrow>
   error + (int list option \<times> 'a list option \<times> 'a list option \<times> 'a list option \<times> 'a list option)"
where
  "sub_nodelay kw =
     (if 0 < kw_nndb kw then
        bindE (util_2d (kw_nndb kw) (kw_ln kw)) (\<lambda>ln'.
        bindE (util_3d (kw_nndb kw) (kw_hc kw)) (\<lambda>hc'.
        bindE (util_3d (kw_nndb kw) (kw_sfe kw)) (\<lambda>sfe'.
        bindE (util_3d (kw_nndb kw) (kw_sfv kw)) (\<lambda>sfv'.
        bindE (util_3d (kw_nndb kw) (kw_com kw)) (\<lambda>com'.
        Inr (Some ln', Some hc', Some sfe', Some sfv', Some com'))))))
      else Inr (None, None, None, None, None))"

text \<open>Delay bed data: assigned only under \<open>ndb > 0\<close>.\<close>

definition sub_delay ::
  "('a, 'f) sub_kwargs \<Rightarrow>
   error + (int list option \<times> 'a list option \<times> 'a list option \<times> 'a list option
            \<times> 'a list option \<times> 'a list option \<times> 'a list option)"
where
  "sub_delay kw =
     (if 0 < kw_ndb kw then
        bindE (util_2d (kw_ndb kw) (kw_ldn kw)) (\<lambda>ldn'.
        bindE (util_3d (kw_ndb kw) (kw_rnb kw)) (\<lambda>rnb'.
        bindE (util_3d (kw_ndb kw) (kw_dstart kw)) (\<lambda>dstart'.
        bindE (util_3d (kw_ndb kw) (kw_dhc kw)) (\<lambda>dhc'.
        bindE (util_3d (kw_ndb kw) (kw_dcom kw)) (\<lambda>dcom'.
        bindE (util_3d (kw_ndb kw) (kw_dz kw)) (\<lambda>dz'.
        bindE (util_3d (kw_ndb kw) (kw_nz kw)) (\<lambda>nz'.
        Inr (Some ldn', Some rnb', Some dstart', Some dhc', Some dcom', Some dz', Some nz'))))))))
      else Inr (None, None, None, None, None, None, None))"

text \<open>\<open>for i in range(1, 12, 2): ids15[i] = 2051\<close>, an index beyond the array raising
  IndexError.\<close>

primrec set_unit_codes :: "nat list \<Rightarrow> int list \<Rightarrow> error + int list" where
  "set_unit_codes [] xs = Inr xs"
| "set_unit_codes (i # is) xs =
     (if i < length xs then set_unit_codes is (xs[i := 2051]) else Inl IndexError)"

text \<open>
  Output data, under \<open>isuboc > 0\<close>: the result is the value of \<open>self.isuboc\<close> (reset to 1
  when \<open>ids16\<close> is \<open>None\<close>), \<open>self.ids15\<close> and \<open>self.ids16\<close>. The default row is
  \<open>np.ones((1, 17), dtype=np.int)\<close> with its first four entries assigned; \<open>nper - 1\<close> is a
  Python integer stored into that array, an OverflowError when it does not fit. A
  one-dimensional \<open>ids16\<close> reaches \<open>numpy.reshape\<close>, and the module only knows the name
  \<open>np\<close>: NameError.
\<close>

definition sub_output ::
  "('a, 'f) sub_kwargs \<Rightarrow> int \<Rightarrow> error + (int \<times> int list option \<times> int list list option)"
where
  "sub_output kw nper' =
     (if 0 < kw_isuboc kw then
        bindE (set_unit_codes [1, 3, 5, 7, 9, 11]
                 (case kw_ids15 kw of None \<Rightarrow> replicate 12 0 | Some xs \<Rightarrow> xs)) (\<lambda>ids15'.
        case kw_ids16 kw of
          None \<Rightarrow>
            bindE (np_store (nper' - 1)) (\<lambda>v.
            Inr (1, Some ids15', Some [[0, v, 0, 9999] @ replicate 13 1]))
        | Some (Ids2 rows) \<Rightarrow> Inr (kw_isuboc kw, Some ids15', Some rows)
        | Some (Ids1 row) \<Rightarrow> Inl NameError)
      else Inr (kw_isuboc kw, None, None))"

definition sub_attributes :: "'p Modflow \<Rightarrow> ('a, 'f) sub_kwargs \<Rightarrow> error + ('a, 'f) ModflowSub" where
  "sub_attributes model kw =
     bindE (sub_nodelay kw) (\<lambda>(ln', hc', sfe', sfv', com').
     bindE (sub_delay kw) (\<lambda>(ldn', rnb', dstart', dhc', dcom', dz', nz').
     bindE (sub_output kw (nper model)) (\<lambda>(isuboc', ids15', ids16').
     Inr \<lparr> extension = [kw_extension kw] @ (if 0 < kw_isuboc kw then [''bud''] else [])
                          @ (if 0 < kw_idsave kw then [''rst''] else []),
           name = [''SUB''] @ (if 0 < kw_isuboc kw then [''DATA(BINARY)''] else [])
                          @ (if 0 < kw_idsave kw then [''DATA(BINARY)''] else []),
           unit_number = [kw_unit_number kw] @ (if 0 < kw_isuboc kw then [2051] else [])
                          @ (if 0 < kw_idsave kw then [2052] else []),
           extra = [[]] @ (if 0 < kw_isuboc kw then [''REPLACE''] else [])
                          @ (if 0 < kw_idsave kw then [''REPLACE''] else []),
           heading = ''# Subsidence (SUB) package file for '' @ version model
                     @ '', generated by Flopy.'',
           isubcb = kw_isubcb kw, isuboc = isuboc', idsave = kw_idsave kw,
           idrest = kw_idrest kw, nndb = kw_nndb kw, ndb = kw_ndb kw, nmz = kw_nmz kw,
           nn = kw_nn kw, ac1 = kw_ac1 kw, ac2 = kw_ac2 kw, itmin = kw_itmin kw,
           ln = ln', hc = hc', sfe = sfe', sfv = sfv', com = com',
           ldn = ldn', rnb = rnb', dstart = dstart', dhc = dhc', dcom = dcom',
           dz = dz', nz = nz', dp = kw_dp kw, ids15 = ids15', ids16 = ids16' \<rparr>)))"

text \<open>The constructor: the attributes are set, then the last statement registers the
  package with the host model. An exception before that leaves the host as it was.\<close>

definition ModflowSub_init ::
  "('a, 'f) ModflowSub Modflow \<Rightarrow> ('a, 'f) sub_kwargs
   \<Rightarrow> (error + ('a, 'f) ModflowSub) \<times> ('a, 'f) ModflowSub Modflow"
where
  "ModflowSub_init model kw =
     (case sub_attributes model kw of
        Inl e \<Rightarrow> (Inl e, model)
      | Inr self \<Rightarrow> (Inr self, add_package model self))"

subsection \<open>\<open>ModflowSub.write_file\<close>\<close>

text \<open>
  The file written is the sequence of the \<open>f.write\<close> calls: a literal text, or the file
  entry of the grid \<open>k\<close> of an array attribute (\<open>self.hc[k].get_file_entry()\<close>), which
  keeps the attribute's name and the index. A write step yields the chunks it wrote and
  whether it raised; after an exception nothing more is written.
\<close>

datatype 'a chunk = Text string | Entry string nat 'a

type_synonym 'a written = "(error + unit) \<times> 'a chunk list"

definition wrote :: "'a chunk list \<Rightarrow> 'a written" where
  "wrote cs = (Inr (), cs)"

definition raised :: "error \<Rightarrow> 'a written" where
  "raised e = (Inl e, [])"

fun thenW :: "'a written \<Rightarrow> 'a written \<Rightarrow> 'a written" where
  "thenW (Inl e, cs) b = (Inl e, cs)"
| "thenW (Inr u, cs) (r, cs') = (r, cs @ cs')"

primrec forW :: "nat list \<Rightarrow> (nat \<Rightarrow> 'a written) \<Rightarrow> 'a written" where
  "forW [] body = wrote []"
| "forW (k # ks) body = thenW (body k) (forW ks body)"

definition render :: "('a \<Rightarrow> string) \<Rightarrow> 'a chunk list \<Rightarrow> string" where
  "render entry cs = concat (map (\<lambda>c. case c of Text s \<Rightarrow> s | Entry nm k a \<Rightarrow> entry a) cs)"

text \<open>\<open>f.write(self.x[k].get_file_entry())\<close>: subscripting \<open>None\<close> is a TypeError, an index
  beyond the leading dimension an IndexError. For the attributes \<open>com\<close> and \<open>dcom\<close>, which
  the constructor leaves unassigned, the failure is an AttributeError instead.\<close>

definition write_entry :: "error \<Rightarrow> string \<Rightarrow> 'a list option \<Rightarrow> nat \<Rightarrow> 'a written" where
  "write_entry missing nm field k =
     (case field of
        None \<Rightarrow> raised missing
      | Some xs \<Rightarrow> if k < length xs then wrote [Entry nm k (xs ! k)] else raised IndexError)"

text \<open>Datasets 2 and 3: \<open>t = self.ln.array\<close>, then each layer index plus one followed by a
  blank, then a newline. There is no guard: \<open>None.array\<close> is an AttributeError. The
  entries are \<open>np.int\<close> values, whose sum with one wraps around.\<close>

definition write_layer_line :: "int list option \<Rightarrow> 'a written" where
  "write_layer_line field =
     (case field of
        None \<Rightarrow> raised AttributeError
      | Some t \<Rightarrow> wrote (map (\<lambda>tt. Text (str_int (np_wrap (tt + 1)) @ '' '')) t @ [Text ''\<newline>'']))"

text \<open>Dataset 9, one row: \<open>self.dp[k, 0]\<close>, \<open>self.dp[k, 1]\<close>, \<open>self.dp[k, 2]\<close>.\<close>

definition dp_get :: "'f dptab option \<Rightarrow> nat \<Rightarrow> nat \<Rightarrow> error + 'f" where
  "dp_get tab k j =
     (case tab of
        None \<Rightarrow> Inl TypeError
      | Some (Dp1 xs) \<Rightarrow> Inl IndexError
      | Some (Dp2 rows) \<Rightarrow>
          if k < length rows \<and> j < length (rows ! k) then Inr (rows ! k ! j) else Inl IndexError)"

definition write_dp_row :: "('a, 'f) platform \<Rightarrow> 'f dptab option \<Rightarrow> nat \<Rightarrow> 'a written" where
  "write_dp_row pf tab k =
     (case bindE (dp_get tab k 0) (\<lambda>a. bindE (dp_get tab k 1) (\<lambda>b.
           bindE (dp_get tab k 2) (\<lambda>c. Inr (a, b, c)))) of
        Inl e \<Rightarrow> raised e
      | Inr (a, b, c) \<Rightarrow>
          wrote [Text (float_g pf 15 6 False a @ '' '' @ float_g pf 15 6 False b @ '' ''
                       @ float_g pf 15 6 False c @ ''    #material zone '' @ str_int (int k + 1)
                       @ '' data\<newline>'')])"

text \<open>
  Dataset 16: \<open>t = self.ids16[k, :]\<close> is a view of the row, so \<open>t[0:4] += 1\<close> changes the
  stored row itself (wrapping around in the array's integer type); the function returns
  the table as the loop leaves it.
\<close>

definition incr_first4 :: "int list \<Rightarrow> int list" where
  "incr_first4 t = map (\<lambda>i. np_wrap (i + 1)) (take 4 t) @ drop 4 t"

primrec write_ids16 :: "nat list \<Rightarrow> int list list \<Rightarrow> 'a written \<times> int list list" where
  "write_ids16 [] tab = (wrote [], tab)"
| "write_ids16 (k # ks) tab =
     (if k < length tab then
        (case write_ids16 ks (tab[k := incr_first4 (tab ! k)]) of
           (w, tab') \<Rightarrow>
             (thenW (wrote (map (\<lambda>i. Text (str_int i @ '' '')) (incr_first4 (tab ! k))
                            @ [Text (''  #dataset 16 isuboc '' @ str_int (int k + 1)
                                     @ ''\<newline>'')])) w,
              tab'))
      else (raised IndexError, tab))"

definition write_output_control :: "('a, 'f) ModflowSub \<Rightarrow> 'a written \<times> ('a, 'f) ModflowSub" where
  "write_output_control self =
     (if 0 < isuboc self then
        case ids15 self of
          None \<Rightarrow> (raised AttributeError, self)
        | Some v \<Rightarrow>
            (case ids16 self of
               None \<Rightarrow>
                 (thenW (wrote (map (\<lambda>i. Text (str_int i @ '' '')) v @ [Text ''  #dataset 15\<newline>'']))
                        (raised AttributeError), self)
             | Some tab \<Rightarrow>
                 (case write_ids16 [0..<nat (isuboc self)] tab of
                    (w, tab') \<Rightarrow>
                      (thenW (wrote (map (\<lambda>i. Text (str_int i @ '' '')) v
                                     @ [Text ''  #dataset 15\<newline>''])) w,
                       self\<lparr>ids16 := Some tab'\<rparr>)))
      else (wrote [], self))"

text \<open>The part of \<open>write_file\<close> before the output control: heading, dataset 1 (written by
  two \<open>f.write\<close> calls), datasets 2 to 14.\<close>

definition write_datasets :: "('a, 'f) platform \<Rightarrow> ('a, 'f) ModflowSub \<Rightarrow> 'a written" where
  "write_datasets pf self =
     thenW (wrote [Text (heading self @ ''\<newline>'')])
    (thenW (wrote [Text (str_int (isubcb self) @ '' '' @ str_int (isuboc self) @ '' ''
                         @ str_int (nndb self) @ '' '' @ str_int (ndb self) @ '' ''
                         @ str_int (nmz self) @ '' '' @ str_int (nn self))])
    (thenW (wrote [Text (float_str pf (ac1 self) @ '' '' @ float_str pf (ac2 self) @ '' ''
                         @ str_int (itmin self) @ '' '' @ str_int (idsave self) @ '' ''
                         @ str_int (idrest self) @ ''\<newline>'')])
    (thenW (write_layer_line (ln self))
    (thenW (write_layer_line (ldn self))
    (thenW (if 0 < ndb self
            then forW [0..<nat (ndb self)] (\<lambda>k. write_entry TypeError ''rnb'' (rnb self) k)
            else wrote [])
    (thenW (if 0 < nndb self
            then forW [0..<nat (nndb self)] (\<lambda>k.
                   thenW (write_entry TypeError ''hc'' (hc self) k)
                  (thenW (write_entry TypeError ''sfe'' (sfe self) k)
                  (thenW (write_entry TypeError ''sfv'' (sfv self) k)
                         (write_entry AttributeError ''com'' (com self) k))))
            else wrote [])
    (thenW (if 0 < ndb self
            then forW [0..<nat (nmz self)] (\<lambda>k. write_dp_row pf (dp self) k)
            else wrote [])
           (if 0 < ndb self
            then forW [0..<nat (ndb self)] (\<lambda>k.
                   thenW (write_entry TypeError ''dstart'' (dstart self) k)
                  (thenW (write_entry TypeError ''dhc'' (dhc self) k)
                  (thenW (write_entry AttributeError ''dcom'' (dcom self) k)
                  (thenW (write_entry TypeError ''dz'' (dz self) k)
                         (write_entry TypeError ''nz'' (nz self) k)))))
            else wrote []))))))))"

text \<open>\<open>write_file\<close>: what was written, whether an exception ended the call, and the
  package as the call leaves it.\<close>

definition write_file ::
  "('a, 'f) platform \<Rightarrow> ('a, 'f) ModflowSub \<Rightarrow> 'a written \<times> ('a, 'f) ModflowSub" where
  "write_file pf self =
     (case write_datasets pf self of
        (Inl e, cs) \<Rightarrow> ((Inl e, cs), self)
      | (Inr u, cs) \<Rightarrow>
          (case write_output_control self of (w, self') \<Rightarrow> (thenW (Inr u, cs) w, self')))"

subsection \<open>\<open>ModflowSub.load\<close>\<close>

text \<open>
  Loading threads three things through its statements: the open file handle (its unread
  lines, each with its newline), the host model, and \<open>ext_unit_dict\<close> (\<open>None\<close> by
  default). Every statement returns its value or the exception it raised, together with
  the state it leaves. Messages printed under \<open>model.verbose\<close> are not part of the state.
\<close>

record 'p load_state =
  handle :: "string list"
  host :: "'p Modflow"
  ext_unit_dict :: "(int \<rightharpoonup> string) option"

type_synonym ('p, 'r) loading = "'p load_state \<Rightarrow> (error + 'r) \<times> 'p load_state"

definition returnL :: "'r \<Rightarrow> ('p, 'r) loading" where
  "returnL x s = (Inr x, s)"

definition raiseL :: "error \<Rightarrow> ('p, 'r) loading" where
  "raiseL e s = (Inl e, s)"

definition bindL :: "('p, 'a) loading \<Rightarrow> ('a \<Rightarrow> ('p, 'b) loading) \<Rightarrow> ('p, 'b) loading" where
  "bindL m f s = (case m s of (Inl e, s') \<Rightarrow> (Inl e, s') | (Inr x, s') \<Rightarrow> f x s')"

definition liftL :: "error + 'r \<Rightarrow> ('p, 'r) loading" where
  "liftL r s = (r, s)"

text \<open>A reader of the file handle: on success the handle advances to the lines left; an
  exception leaves the handle where the reader was called.\<close>

definition readL :: "(string list \<Rightarrow> error + ('r \<times> string list)) \<Rightarrow> ('p, 'r) loading" where
  "readL rd s =
     (case rd (handle s) of
        Inl e \<Rightarrow> (Inl e, s)
      | Inr (x, rest) \<Rightarrow> (Inr x, s\<lparr>handle := rest\<rparr>))"

text \<open>\<open>for k in range(n)\<close> collecting one value per iteration.\<close>

primrec forL :: "nat list \<Rightarrow> (nat \<Rightarrow> ('p, 'r) loading) \<Rightarrow> ('p, 'r list) loading" where
  "forL [] body = returnL []"
| "forL (k # ks) body =
     bindL (body k) (\<lambda>x. bindL (forL ks body) (\<lambda>xs. returnL (x # xs)))"

text \<open>\<open>f.readline()\<close>: the next line, or the empty string at the end of the file.\<close>

definition readline :: "string list \<Rightarrow> error + (string \<times> string list)" where
  "readline ls = (case ls of [] \<Rightarrow> Inr ([], []) | l # rest \<Rightarrow> Inr (l, rest))"

text \<open>Dataset 0: \<open>while True: line = f.readline(); if line[0] != '#': break\<close>. At the end
  of the file \<open>line[0]\<close> raises IndexError, so the loop always ends.\<close>

fun skip_comments :: "string list \<Rightarrow> error + (string \<times> string list)" where
  "skip_comments [] = Inl IndexError"
| "skip_comments (l # ls) =
     (case l of
        [] \<Rightarrow> Inl IndexError
      | c # cs \<Rightarrow> if c \<noteq> CHR ''#'' then Inr (l, ls) else skip_comments ls)"

definition int_at :: "string list \<Rightarrow> nat \<Rightarrow> error + int" where
  "int_at t i = (if i < length t then int_of_str (t ! i) else Inl IndexError)"

definition float_at :: "('a, 'f) platform \<Rightarrow> string list \<Rightarrow> nat \<Rightarrow> error + 'f" where
  "float_at pf t i = (if i < length t then float_of pf (t ! i) else Inl IndexError)"

text \<open>
  Modelled from the spec: \<open>read1d\<close> (\<open>flopy.utils\<close>, not among these sources) reads a
  line of whitespace-separated integers into an \<open>np.int\<close> array of \<open>n\<close> entries; a line with
  fewer than \<open>n\<close> tokens or with a malformed token is a format error (ValueError here), a
  number that does not fit the array an OverflowError.
\<close>

primrec ints_of_tokens :: "string list \<Rightarrow> error + int list" where
  "ints_of_tokens [] = Inr []"
| "ints_of_tokens (tok # toks) =
     bindE (int_of_str tok) (\<lambda>v. bindE (np_store v) (\<lambda>w.
     bindE (ints_of_tokens toks) (\<lambda>ws. Inr (w # ws))))"

definition read1d :: "nat \<Rightarrow> string list \<Rightarrow> error + (int list \<times> string list)" where
  "read1d n ls =
     (case ls of
        [] \<Rightarrow> Inl ValueError
      | l # rest \<Rightarrow>
          if length (split_ws l) < n then Inl ValueError
          else bindE (ints_of_tokens (take n (split_ws l))) (\<lambda>vs. Inr (vs, rest)))"

text \<open>Dataset 1, the eleven header tokens in their fixed order.\<close>

record 'f sub_header =
  h_isubcb :: int
  h_isuboc :: int
  h_nndb :: int
  h_ndb :: int
  h_nmz :: int
  h_nn :: int
  h_ac1 :: "'f"
  h_ac2 :: "'f"
  h_itmin :: int
  h_idsave :: int
  h_idrest :: int

definition parse_dataset1 :: "('a, 'f) platform \<Rightarrow> string \<Rightarrow> error + 'f sub_header" where
  "parse_dataset1 pf line =
     (let t = split_ws line in
      bindE (int_at t 0) (\<lambda>v0. bindE (int_at t 1) (\<lambda>v1. bindE (int_at t 2) (\<lambda>v2.
      bindE (int_at t 3) (\<lambda>v3. bindE (int_at t 4) (\<lambda>v4. bindE (int_at t 5) (\<lambda>v5.
      bindE (float_at pf t 6) (\<lambda>v6. bindE (float_at pf t 7) (\<lambda>v7.
      bindE (int_at t 8) (\<lambda>v8. bindE (int_at t 9) (\<lambda>v9. bindE (int_at t 10) (\<lambda>v10.
      Inr \<lparr> h_isubcb = v0, h_isuboc = v1, h_nndb = v2, h_ndb = v3, h_nmz = v4, h_nn = v5,
            h_ac1 = v6, h_ac2 = v7, h_itmin = v8, h_idsave = v9, h_idrest = v10 \<rparr>))))))))))))"

text \<open>The unit remapping after dataset 1. \<open>ext_unit_dict[2053] = ext_unit_dict.pop(idrest)\<close>
  needs a dictionary (AttributeError on \<open>None\<close>) that has the key (KeyError).\<close>

definition remap_units :: "'f sub_header \<Rightarrow> ('p, 'f sub_header) loading" where
  "remap_units h s =
     (let h1 = (if 0 < h_isubcb h then h\<lparr>h_isubcb := 53\<rparr> else h);
          h2 = (if 0 < h_idsave h1 then h1\<lparr>h_idsave := 2052\<rparr> else h1)
      in if 0 < h_idrest h2 then
           (case ext_unit_dict s of
              None \<Rightarrow> (Inl AttributeError, s)
            | Some d \<Rightarrow>
                (case d (h_idrest h2) of
                   None \<Rightarrow> (Inl KeyError, s)
                 | Some v \<Rightarrow>
                     (Inr (h2\<lparr>h_idrest := 2053\<rparr>),
                      s\<lparr>ext_unit_dict := Some ((d(h_idrest h2 := None))(2053 \<mapsto> v))\<rparr>)))
         else (Inr h2, s))"

text \<open>Datasets 2 and 3: \<open>read1d(f, ln) - 1\<close>, a subtraction on the array.\<close>

definition load_layer_line :: "int \<Rightarrow> ('p, int list option) loading" where
  "load_layer_line n =
     (if 0 < n then bindL (readL (read1d (nat n))) (\<lambda>vs. returnL (Some (map (\<lambda>v. np_wrap (v - 1)) vs)))
      else returnL None)"

definition load_grid ::
  "('a, 'f) platform \<Rightarrow> bool \<Rightarrow> string \<Rightarrow> ('p, 'a) loading" where
  "load_grid pf is_int label s =
     readL (u2d_load pf (nrow (host s), ncol (host s)) is_int label) s"

definition nth_err :: "'b list \<Rightarrow> nat \<Rightarrow> error + 'b" where
  "nth_err xs k = (if k < length xs then Inr (xs ! k) else Inl IndexError)"

text \<open>Dataset 4.\<close>

definition load_rnb :: "('a, 'f) platform \<Rightarrow> int \<Rightarrow> ('p, 'a list option) loading" where
  "load_rnb pf ndb' =
     (if 0 < ndb' then
        bindL (forL [0..<nat ndb'] (\<lambda>k.
                 load_grid pf False (''rnb delay bed '' @ str_int (int k + 1))))
              (\<lambda>xs. returnL (Some xs))
      else returnL None)"

text \<open>Datasets 5 to 8, for each no-delay system; \<open>kk = ln[k] + 1\<close> only labels the arrays.\<close>

definition load_nodelay ::
  "('a, 'f) platform \<Rightarrow> int \<Rightarrow> int list option \<Rightarrow> ('p, ('a \<times> 'a \<times> 'a \<times> 'a) list option) loading"
where
  "load_nodelay pf nndb' ln' =
     (if 0 < nndb' then
        bindL (forL [0..<nat nndb'] (\<lambda>k.
                 bindL (liftL (case ln' of None \<Rightarrow> Inl TypeError | Some v \<Rightarrow> nth_err v k)) (\<lambda>lk.
                 bindL (load_grid pf False (''hc layer '' @ str_int (np_wrap (lk + 1)))) (\<lambda>a.
                 bindL (load_grid pf False (''sfe layer '' @ str_int (np_wrap (lk + 1)))) (\<lambda>b.
                 bindL (load_grid pf False (''sfv layer '' @ str_int (np_wrap (lk + 1)))) (\<lambda>c.
                 bindL (load_grid pf False (''com layer '' @ str_int (np_wrap (lk + 1)))) (\<lambda>d.
                 returnL (a, b, c, d))))))))
              (\<lambda>xs. returnL (Some xs))
      else returnL None)"

text \<open>Dataset 9: \<open>nmz\<close> lines of three floats, stored in an \<open>np.float32\<close> array;
  \<open>np.zeros\<close> refuses a negative dimension.\<close>

definition parse_dp_row ::
  "('a, 'f) platform \<Rightarrow> string list \<Rightarrow> error + ('f list \<times> string list)" where
  "parse_dp_row pf ls =
     bindE (readline ls) (\<lambda>(line, rest).
       let t = split_ws line in
       bindE (float_at pf t 0) (\<lambda>a. bindE (float_at pf t 1) (\<lambda>b. bindE (float_at pf t 2) (\<lambda>c.
       Inr ([float32 pf a, float32 pf b, float32 pf c], rest)))))"

definition load_dp ::
  "('a, 'f) platform \<Rightarrow> int \<Rightarrow> int \<Rightarrow> ('p, 'f dptab option) loading" where
  "load_dp pf ndb' nmz' =
     (if 0 < ndb' then
        (if nmz' < 0 then raiseL ValueError
         else bindL (forL [0..<nat nmz'] (\<lambda>k. readL (parse_dp_row pf)))
                    (\<lambda>rows. returnL (Some (Dp2 rows))))
      else returnL None)"

text \<open>Datasets 10 to 14, for each delay system; \<open>nz\<close> is read as an integer array.\<close>

definition load_delay ::
  "('a, 'f) platform \<Rightarrow> int \<Rightarrow> int list option
   \<Rightarrow> ('p, ('a \<times> 'a \<times> 'a \<times> 'a \<times> 'a) list option) loading"
where
  "load_delay pf ndb' ldn' =
     (if 0 < ndb' then
        bindL (forL [0..<nat ndb'] (\<lambda>k.
                 bindL (liftL (case ldn' of None \<Rightarrow> Inl TypeError | Some v \<Rightarrow> nth_err v k)) (\<lambda>lk.
                 bindL (load_grid pf False (''dstart layer '' @ str_int (np_wrap (lk + 1)))) (\<lambda>a.
                 bindL (load_grid pf False (''dhc layer '' @ str_int (np_wrap (lk + 1)))) (\<lambda>b.
                 bindL (load_grid pf False (''dcom layer '' @ str_int (np_wrap (lk + 1)))) (\<lambda>c.
                 bindL (load_grid pf False (''dz layer '' @ str_int (np_wrap (lk + 1)))) (\<lambda>d.
                 bindL (load_grid pf True (''nz layer '' @ str_int (np_wrap (lk + 1)))) (\<lambda>e.
                 returnL (a, b, c, d, e)))))))))
              (\<lambda>xs. returnL (Some xs))
      else returnL None)"

text \<open>
  Datasets 15 and 16. The message printed under \<open>model.verbose\<close> formats \<open>kk\<close>, a name
  bound only inside the two loops over the systems: with both counts at zero it is a
  NameError. Each unit code of dataset 15 is registered with the host and replaced by
  2051; the first four entries of each row of dataset 16 are decreased by one.
\<close>

primrec register_units :: "nat list \<Rightarrow> int list \<Rightarrow> ('p, int list) loading" where
  "register_units [] v = returnL v"
| "register_units (k # ks) v =
     (if k < length v
      then (\<lambda>s. register_units ks (v[k := 2051]) (s\<lparr>host := add_pop_key_list (host s) (v ! k)\<rparr>))
      else raiseL IndexError)"

definition decr_first4 :: "int list \<Rightarrow> int list" where
  "decr_first4 t = map (\<lambda>i. np_wrap (i - 1)) (take 4 t) @ drop 4 t"

definition load_output_control ::
  "'f sub_header \<Rightarrow> ('p, int list option \<times> ids16tab option) loading" where
  "load_output_control h =
     (if 0 < h_isuboc h then
        (\<lambda>s. if verbose (host s) \<and> \<not> 0 < h_nndb h \<and> \<not> 0 < h_ndb h then (Inl NameError, s)
              else bindL (readL (read1d 12)) (\<lambda>v.
                   bindL (register_units [1, 3, 5, 7, 9, 11] v) (\<lambda>ids15'.
                   bindL (forL [0..<nat (h_isuboc h)] (\<lambda>k.
                            bindL (readL (read1d 17)) (\<lambda>t. returnL (decr_first4 t)))) (\<lambda>rows.
                   returnL (Some ids15', Some (Ids2 rows))))) s)
      else returnL (None, None))"

text \<open>The statements of \<open>load\<close> up to \<open>f.close()\<close>: they produce the keyword arguments of
  the constructor call that ends \<open>load\<close>.\<close>

definition parse_sub :: "('a, 'f) platform \<Rightarrow> ('p, ('a, 'f) sub_kwargs) loading" where
  "parse_sub pf =
     bindL (readL skip_comments) (\<lambda>line.
     bindL (liftL (parse_dataset1 pf line)) (\<lambda>h0.
     bindL (remap_units h0) (\<lambda>h.
     bindL (load_layer_line (h_nndb h)) (\<lambda>ln'.
     bindL (load_layer_line (h_ndb h)) (\<lambda>ldn'.
     bindL (load_rnb pf (h_ndb h)) (\<lambda>rnb'.
     bindL (load_nodelay pf (h_nndb h) ln') (\<lambda>nd.
     bindL (load_dp pf (h_ndb h) (h_nmz h)) (\<lambda>dp'.
     bindL (load_delay pf (h_ndb h) ldn') (\<lambda>dl.
     bindL (load_output_control h) (\<lambda>(ids15', ids16').
     returnL \<lparr> kw_isubcb = h_isubcb h, kw_isuboc = h_isuboc h, kw_idsave = h_idsave h,
               kw_idrest = h_idrest h, kw_nndb = h_nndb h, kw_ndb = h_ndb h,
               kw_nmz = h_nmz h, kw_nn = h_nn h, kw_ac1 = h_ac1 h, kw_ac2 = h_ac2 h,
               kw_itmin = h_itmin h, kw_ln = ln', kw_ldn = ldn', kw_rnb = rnb',
               kw_hc = map_option (map (\<lambda>(a, b, c, d). a)) nd,
               kw_sfe = map_option (map (\<lambda>(a, b, c, d). b)) nd,
               kw_sfv = map_option (map (\<lambda>(a, b, c, d). c)) nd,
               kw_com = map_option (map (\<lambda>(a, b, c, d). d)) nd,
               kw_dp = dp',
               kw_dstart = map_option (map (\<lambda>(a, b, c, d, e). a)) dl,
               kw_dhc = map_option (map (\<lambda>(a, b, c, d, e). b)) dl,
               kw_dcom = map_option (map (\<lambda>(a, b, c, d, e). c)) dl,
               kw_dz = map_option (map (\<lambda>(a, b, c, d, e). d)) dl,
               kw_nz = map_option (map (\<lambda>(a, b, c, d, e). e)) dl,
               kw_ids15 = ids15', kw_ids16 = ids16',
               kw_extension = ''sub'', kw_unit_number = 32 \<rparr>))))))))))"

text \<open>\<open>load\<close>: parse the whole file, then call the constructor, which registers the
  package with the host model as its last statement.\<close>

definition load :: "('a, 'f) platform \<Rightarrow> (('a, 'f) ModflowSub, ('a, 'f) ModflowSub) loading" where
  "load pf =
     bindL (parse_sub pf) (\<lambda>kw s.
       case ModflowSub_init (host s) kw of
         (r, model') \<Rightarrow> (r, s\<lparr>host := model'\<rparr>))"

subsection \<open>Files as text\<close>

text \<open>The lines of a text as \<open>readline\<close> returns them from a file opened for reading
  in text mode: each line ends with a newline character, which also stands for a carriage
  return and for a carriage return followed by a newline.\<close>

primrec lines_acc :: "string \<Rightarrow> string \<Rightarrow> string list" where
  "lines_acc cur [] = (if cur = [] then [] else [cur])"
| "lines_acc cur (c # cs) =
     (if c = CHR 0x0A then (cur @ [CHR 0x0A]) # lines_acc [] cs
      else if c = CHR 0x0D then
        (if cs \<noteq> [] \<and> hd cs = CHR 0x0A then lines_acc cur cs
         else (cur @ [CHR 0x0A]) # lines_acc [] cs)
      else lines_acc (cur @ [c]) cs)"

definition lines_of :: "string \<Rightarrow> string list" where
  "lines_of s = lines_acc [] s"

text \<open>The text of the file that \<open>write_file\<close> leaves on disk.\<close>

definition written_text :: "('a, 'f) platform \<Rightarrow> ('a, 'f) ModflowSub \<Rightarrow> string" where
  "written_text pf self =
     (case write_file pf self of ((r, cs), self') \<Rightarrow> render (get_file_entry pf) cs)"

section \<open>An instance of the platform\<close>

text \<open>
  To run the adapters on concrete files the platform is instantiated. In this instance a
  float is an exact finite decimal: sign, mantissa and power of ten, the mantissa without
  trailing zeros (zero is mantissa 0 with exponent 0, and keeps its sign). On decimal
  tokens of a few digits it prints what Python prints; it does not round to binary
  precision and has no \<open>inf\<close> or \<open>nan\<close>. Every grid is a constant, stored as its value
  token and written as the one-line control record \<open>CONSTANT value\<close>.
\<close>

datatype pyfloat = PyFloat bool nat int

fun norm_dec :: "nat \<Rightarrow> int \<Rightarrow> nat \<times> int" where
  "norm_dec m e =
     (if m = 0 then (0, 0)
      else if m mod 10 = 0 then norm_dec (m div 10) (e + 1)
      else (m, e))"

declare norm_dec.simps [simp del]

definition not_exp_char :: "char \<Rightarrow> bool" where
  "not_exp_char c = (c \<noteq> CHR ''e'' \<and> c \<noteq> CHR ''E'')"

definition not_point :: "char \<Rightarrow> bool" where
  "not_point c = (c \<noteq> CHR ''.'')"

definition float_of_str :: "string \<Rightarrow> error + pyfloat" where
  "float_of_str s =
     (let neg = (s \<noteq> [] \<and> hd s = CHR ''-'');
          body = (if s \<noteq> [] \<and> (hd s = CHR ''-'' \<or> hd s = CHR ''+'') then tl s else s);
          mpart = takeWhile not_exp_char body;
          epart = dropWhile not_exp_char body;
          ip = takeWhile not_point mpart;
          rest = dropWhile not_point mpart;
          fp = (if rest = [] then [] else tl rest)
      in if ip @ fp = [] then Inl ValueError
         else case nat_of_digits 0 (ip @ fp) of
                None \<Rightarrow> Inl ValueError
              | Some m \<Rightarrow>
                  (case (if epart = [] then Inr 0 else int_of_str (tl epart)) of
                     Inl err \<Rightarrow> Inl ValueError
                   | Inr x \<Rightarrow>
                       (case norm_dec m (x - int (length fp)) of
                          (m', e') \<Rightarrow> Inr (PyFloat neg m' e'))))"

definition sign_str :: "bool \<Rightarrow> string" where
  "sign_str neg = (if neg then ''-'' else [])"

text \<open>Scientific notation: one digit, the others after the point, an exponent of at
  least two digits.\<close>

definition sci_str :: "string \<Rightarrow> int \<Rightarrow> char \<Rightarrow> string" where
  "sci_str ds x ec =
     take 1 ds @ (if 1 < length ds then CHR ''.'' # drop 1 ds else [])
     @ [ec] @ (if x < 0 then ''-'' else ''+'')
     @ (let a = str_nat (nat \<bar>x\<bar>) in if length a < 2 then CHR ''0'' # a else a)"

text \<open>Fixed notation of the digits \<open>ds\<close> whose first digit has weight \<open>10 ^ x\<close>; \<open>suffix\<close>
  is appended when there is no fractional digit.\<close>

definition fixed_str :: "string \<Rightarrow> int \<Rightarrow> string \<Rightarrow> string" where
  "fixed_str ds x suffix =
     (if x < 0 then ''0.'' @ replicate (nat (- x - 1)) CHR ''0'' @ ds
      else let k = nat x + 1
           in if length ds \<le> k then ds @ replicate (k - length ds) CHR ''0'' @ suffix
              else take k ds @ CHR ''.'' # drop k ds)"

text \<open>\<open>'{}'.format(x)\<close> for a float is \<open>repr\<close>: fixed notation while the decimal exponent
  is in \<open>[-4, 16)\<close>, always with a fractional part.\<close>

definition str_float :: "pyfloat \<Rightarrow> string" where
  "str_float f =
     (case f of PyFloat neg m e \<Rightarrow>
        if m = 0 then sign_str neg @ ''0.0''
        else let ds = str_nat m; x = int (length ds) - 1 + e
             in if - 4 \<le> x \<and> x < 16 then sign_str neg @ fixed_str ds x ''.0''
                else sign_str neg @ sci_str ds x CHR ''e'')"

text \<open>Rounding a mantissa to \<open>p\<close> significant digits (ties to even), then dropping
  trailing zeros.\<close>

definition round_sig :: "nat \<Rightarrow> nat \<Rightarrow> int \<Rightarrow> nat \<times> int" where
  "round_sig p m e =
     (let n = length (str_nat m)
      in if n \<le> p then norm_dec m e
         else let q = 10 ^ (n - p); hi = m div q; lo = m mod q;
                  hi' = (if q div 2 < lo \<or> (lo = q div 2 \<and> odd hi) then hi + 1 else hi)
              in norm_dec hi' (e + int (n - p)))"

text \<open>\<open>'{:W.PG}'.format(x)\<close> (\<open>upper\<close>) and \<open>'{:W.Pg}'.format(x)\<close>: \<open>P\<close> significant digits,
  trailing zeros removed, scientific notation when the exponent is below \<open>-4\<close> or at
  least \<open>P\<close>, right-aligned in width \<open>W\<close>.\<close>

definition fmt_g :: "nat \<Rightarrow> nat \<Rightarrow> bool \<Rightarrow> pyfloat \<Rightarrow> string" where
  "fmt_g w p upper f =
     (case f of PyFloat neg m e \<Rightarrow>
        if m = 0 then rjust w (sign_str neg @ ''0'')
        else case round_sig p m e of (m', e') \<Rightarrow>
          let ds = str_nat m'; x = int (length ds) - 1 + e'
          in if - 4 \<le> x \<and> x < int p then rjust w (sign_str neg @ fixed_str ds x [])
             else rjust w (sign_str neg @ sci_str ds x (if upper then CHR ''E'' else CHR ''e'')))"

text \<open>\<open>x < 1\<close> on a float, and the truncation numpy applies when a float array is stored
  with an integer dtype.\<close>

definition decimal_lt_one :: "pyfloat \<Rightarrow> bool" where
  "decimal_lt_one f =
     (case f of PyFloat neg m e \<Rightarrow>
        if m = 0 \<or> neg then True
        else if 0 \<le> e then False
        else m < 10 ^ nat (- e))"

definition float_trunc :: "pyfloat \<Rightarrow> int" where
  "float_trunc f =
     (case f of PyFloat neg m e \<Rightarrow>
        let a = (if 0 \<le> e then int m * 10 ^ nat e else int m div 10 ^ nat (- e))
        in if neg then - a else a)"


definition constant_load ::
  "nat \<times> nat \<Rightarrow> bool \<Rightarrow> string \<Rightarrow> string list \<Rightarrow> error + (string \<times> string list)" where
  "constant_load shape is_int label ls =
     (case ls of
        [] \<Rightarrow> Inl (ArrayError label)
      | l # rest \<Rightarrow>
          (case split_ws l of
             [kw, v] \<Rightarrow> if kw = ''CONSTANT'' then Inr (v, rest) else Inl (ArrayError label)
           | _ \<Rightarrow> Inl (ArrayError label)))"

definition example_platform :: "(string, pyfloat) platform" where
  "example_platform =
     \<lparr> float_of = float_of_str, float_str = str_float, float_g = fmt_g,
       float32 = (\<lambda>x. x), float_lt_one = decimal_lt_one, float_int = float_trunc,
       u2d_load = constant_load, get_file_entry = (\<lambda>v. ''CONSTANT '' @ v @ ''\<newline>'') \<rparr>"

text \<open>A host model with a 2 by 2 grid, one layer and three stress periods, holding the
  given packages; and the state in which \<open>load\<close> starts on the lines of a file.\<close>

definition example_host :: "'p list \<Rightarrow> 'p Modflow" where
  "example_host pkgs =
     \<lparr> nrow = 2, ncol = 2, nlay = 1, nper = 3, verbose = False, version = ''mf2005'',
       packagelist = pkgs, pop_key_list = [], dis = None \<rparr>"

definition start_load :: "'p Modflow \<Rightarrow> string list \<Rightarrow> 'p load_state" where
  "start_load model ls = \<lparr> handle = ls, host = model, ext_unit_dict = None \<rparr>"

text \<open>A SUB file with one no-delay and one delay system, one material zone and no output
  control; its dataset 1 is the header line \<open>0 0 1 1 1 20 0.0 0.2 5 0 0\<close>.\<close>

definition example_sub_file :: "string list" where
  "example_sub_file =
     [''# SUB package\<newline>'',
      ''0 0 1 1 1 20 0.0 0.2 5 0 0\<newline>'',
      ''1\<newline>'',
      ''1\<newline>'',
      ''CONSTANT 1.0\<newline>'',
      ''CONSTANT 100000.0\<newline>'',
      ''CONSTANT 0.0001\<newline>'',
      ''CONSTANT 0.001\<newline>'',
      ''CONSTANT 0.0\<newline>'',
      ''0.000001 0.000006 0.0006\<newline>'',
      ''CONSTANT 1.0\<newline>'',
      ''CONSTANT 100000.0\<newline>'',
      ''CONSTANT 0.0\<newline>'',
      ''CONSTANT 1.0\<newline>'',
      ''CONSTANT 1\<newline>'']"

text \<open>Keyword arguments for a package with one no-delay and one delay system and the
  output control switched on (\<open>isuboc = 1\<close>) with \<open>ids15\<close> and \<open>ids16\<close> left at \<open>None\<close>.\<close>

definition example_kwargs :: "(string, pyfloat) sub_kwargs" where
  "example_kwargs =
     \<lparr> kw_isubcb = 0, kw_isuboc = 1, kw_idsave = 0, kw_idrest = 0, kw_nndb = 1, kw_ndb = 1,
       kw_nmz = 1, kw_nn = 20, kw_ac1 = PyFloat False 0 0, kw_ac2 = PyFloat False 2 (- 1),
       kw_itmin = 5, kw_ln = Some [0], kw_ldn = Some [0], kw_rnb = Some [''1.0''],
       kw_hc = Some [''100000.0''], kw_sfe = Some [''0.0001''], kw_sfv = Some [''0.001''],
       kw_com = Some [''0.0''],
       kw_dp = Some (Dp2 [[PyFloat False 1 (- 6), PyFloat False 6 (- 6), PyFloat False 6 (- 4)]]),
       kw_dstart = Some [''1.0''], kw_dhc = Some [''100000.0''], kw_dcom = Some [''0.0''],
       kw_dz = Some [''1.0''], kw_nz = Some [''1''], kw_ids15 = None, kw_ids16 = None,
       kw_extension = ''sub'', kw_unit_number = 32 \<rparr>"

definition sub_host :: "(string, pyfloat) ModflowSub Modflow" where
  "sub_host = example_host []"

text \<open>The package that the constructor builds from \<open>example_kwargs\<close> on \<open>sub_host\<close>.\<close>

definition example_oc_sub :: "(string, pyfloat) ModflowSub" where
  "example_oc_sub =
     \<lparr> extension = [''sub'', ''bud''], name = [''SUB'', ''DATA(BINARY)''],
       unit_number = [32, 2051], extra = [[], ''REPLACE''],
       heading = ''# Subsidence (SUB) package file for mf2005, generated by Flopy.'',
       isubcb = 0, isuboc = 1, idsave = 0, idrest = 0, nndb = 1, ndb = 1, nmz = 1, nn = 20,
       ac1 = PyFloat False 0 0, ac2 = PyFloat False 2 (- 1), itmin = 5,
       ln = Some [0], hc = Some [''100000.0''], sfe = Some [''0.0001''],
       sfv = Some [''0.001''], com = Some [''0.0''],
       ldn = Some [0], rnb = Some [''1.0''], dstart = Some [''1.0''],
       dhc = Some [''100000.0''], dcom = Some [''0.0''], dz = Some [''1.0''], nz = Some [''1''],
       dp = Some (Dp2 [[PyFloat False 1 (- 6), PyFloat False 6 (- 6), PyFloat False 6 (- 4)]]),
       ids15 = Some [0, 2051, 0, 2051, 0, 2051, 0, 2051, 0, 2051, 0, 2051],
       ids16 = Some [[0, 2, 0, 9999, 1, 1, 1, 1, 1, 1, 1, 1, 1, 1, 1, 1, 1]] \<rparr>"

text \<open>The package that \<open>load\<close> builds from \<open>example_sub_file\<close> on \<open>sub_host\<close>.\<close>

definition example_sub :: "(string, pyfloat) ModflowSub" where
  "example_sub =
     \<lparr> extension = [''sub''], name = [''SUB''], unit_number = [32], extra = [[]],
       heading = ''# Subsidence (SUB) package file for mf2005, generated by Flopy.'',
       isubcb = 0, isuboc = 0, idsave = 0, idrest = 0, nndb = 1, ndb = 1, nmz = 1, nn = 20,
       ac1 = PyFloat False 0 0, ac2 = PyFloat False 2 (- 1), itmin = 5,
       ln = Some [0], hc = Some [''100000.0''], sfe = Some [''0.0001''],
       sfv = Some [''0.001''], com = Some [''0.0''],
       ldn = Some [0], rnb = Some [''1.0''], dstart = Some [''1.0''],
       dhc = Some [''100000.0''], dcom = Some [''0.0''], dz = Some [''1.0''], nz = Some [''1''],
       dp = Some (Dp2 [[PyFloat False 1 (- 6), PyFloat False 6 (- 6), PyFloat False 6 (- 4)]]),
       ids15 = None, ids16 = None \<rparr>"

section \<open>Predicates used in the proofs\<close>

text \<open>A loading step keeps the host's package list, whatever it returns.\<close>

definition keeps_packages :: "('p, 'r) loading \<Rightarrow> bool" where
  "keeps_packages m =
     (\<forall>s r s'. m s = (r, s') \<longrightarrow> packagelist (host s') = packagelist (host s))"

section \<open>Properties of the SUB constructor\<close>

lemma set_unit_codes_ok:
  "\<forall>i \<in> set is. i < length xs \<Longrightarrow> \<exists>ys. set_unit_codes is xs = Inr ys \<and> length ys = length xs"
proof (induction "is" arbitrary: xs)
  case Nil
  then show ?case by simp
next
  case (Cons i "is")
  have "\<forall>j \<in> set is. j < length (xs[i := 2051])"
    using Cons.prems by simp
  from Cons.IH [OF this] Cons.prems show ?case by simp
qed

lemma sub_output_default:
  assumes "kw_isuboc kw = 1" and "kw_ids16 kw = None" and "sub_output kw n = Inr (i, a, b)"
  shows "i = 1 \<and> b = Some [[0, n - 1, 0, 9999, 1, 1, 1, 1, 1, 1, 1, 1, 1, 1, 1, 1, 1]]"
  using assms
  by (auto simp: sub_output_def bindE_def np_store_def numeral_eq_Suc
           split: sum.splits if_splits)

lemma sub_output_succeeds:
  assumes "0 < kw_isuboc kw" and "kw_ids16 kw = None"
      and "case kw_ids15 kw of None \<Rightarrow> True | Some xs \<Rightarrow> 12 \<le> length xs"
      and "np_int_ok (n - 1)"
  shows "\<exists>r. sub_output kw n = Inr r"
proof -
  let ?xs = "case kw_ids15 kw of None \<Rightarrow> replicate 12 0 | Some xs \<Rightarrow> xs"
  have "12 \<le> length ?xs"
    using assms(3) by (simp split: option.splits)
  then have "\<forall>i \<in> set [1, 3, 5, 7, 9, 11]. i < length ?xs"
    by simp
  from set_unit_codes_ok [OF this] obtain ys
    where "set_unit_codes [1, 3, 5, 7, 9, 11] ?xs = Inr ys" by blast
  then show ?thesis
    using assms(1,2,4) by (simp add: sub_output_def bindE_def np_store_def)
qed

text \<open>
  C5. Constructing a SUB package with \<open>isuboc = 1\<close> and \<open>ids16 = None\<close>: whenever the
  constructor returns, the package holds exactly one output-control row of 17 entries,
  \<open>(0, nper - 1, 0, 9999)\<close> followed by thirteen flags equal to 1, and \<open>isuboc\<close> is 1. The
  constructor does return, registering the package, when the array arguments have the
  shapes their counts require, \<open>ids15\<close> is \<open>None\<close> or has at least 12 entries, and
  \<open>nper - 1\<close> fits the integer array that holds the row.
\<close>

theorem sub_init_default_output_row:
  assumes "kw_isuboc kw = 1" and "kw_ids16 kw = None"
  shows "(ModflowSub_init model kw = (Inr self, model') \<longrightarrow>
            isuboc self = 1 \<and>
            ids16 self = Some [[0, nper model - 1, 0, 9999, 1, 1, 1, 1, 1, 1, 1, 1, 1, 1, 1, 1, 1]] \<and>
            map length (the (ids16 self)) = [17])
       \<and> (\<not> isl (sub_nodelay kw) \<and> \<not> isl (sub_delay kw)
            \<and> (case kw_ids15 kw of None \<Rightarrow> True | Some xs \<Rightarrow> 12 \<le> length xs)
            \<and> np_int_ok (nper model - 1) \<longrightarrow>
            (\<exists>p. ModflowSub_init model kw = (Inr p, add_package model p)))"
proof (intro conjI impI)
  assume ret: "ModflowSub_init model kw = (Inr self, model')"
  then obtain i a b where out: "sub_output kw (nper model) = Inr (i, a, b)"
    and flds: "isuboc self = i" "ids16 self = b"
    by (auto simp: ModflowSub_init_def sub_attributes_def bindE_def
             split: sum.splits prod.splits)
  from sub_output_default [OF assms out] flds
  show "isuboc self = 1" by simp
  from sub_output_default [OF assms out] flds
  show "ids16 self = Some [[0, nper model - 1, 0, 9999, 1, 1, 1, 1, 1, 1, 1, 1, 1, 1, 1, 1, 1]]"
    by simp
  then show "map length (the (ids16 self)) = [17]" by simp
next
  assume ok: "\<not> isl (sub_nodelay kw) \<and> \<not> isl (sub_delay kw)
            \<and> (case kw_ids15 kw of None \<Rightarrow> True | Some xs \<Rightarrow> 12 \<le> length xs)
            \<and> np_int_ok (nper model - 1)"
  from ok obtain x where x: "sub_nodelay kw = Inr x" by (cases "sub_nodelay kw") auto
  from ok obtain y where y: "sub_delay kw = Inr y" by (cases "sub_delay kw") auto
  from ok assms sub_output_succeeds [of kw "nper model"] obtain r
    where r: "sub_output kw (nper model) = Inr r" by auto
  show "\<exists>p. ModflowSub_init model kw = (Inr p, add_package model p)"
    using x y r
    by (simp add: ModflowSub_init_def sub_attributes_def bindE_def split: prod.splits)
qed

lemma replicate_13: "replicate 13 x = [x, x, x, x, x, x, x, x, x, x, x, x, x]"
  by (simp add: numeral_eq_Suc)

lemma example_kwargs_arrays_ok:
  "\<not> isl (sub_nodelay example_kwargs)" "\<not> isl (sub_delay example_kwargs)"
  by (simp_all add: example_kwargs_def sub_nodelay_def sub_delay_def util_2d_def util_3d_def
        bindE_def)

theorem sub_init_default_output_row_witness:
  "kw_isuboc example_kwargs = 1 \<and> kw_ids16 example_kwargs = None
   \<and> \<not> isl (sub_nodelay example_kwargs) \<and> \<not> isl (sub_delay example_kwargs)
   \<and> np_int_ok (nper sub_host - 1)
   \<and> (\<exists>p. ModflowSub_init sub_host example_kwargs = (Inr p, add_package sub_host p)
          \<and> isuboc p = 1
          \<and> ids16 p = Some [[0, 2, 0, 9999, 1, 1, 1, 1, 1, 1, 1, 1, 1, 1, 1, 1, 1]])"
proof -
  have h1: "kw_isuboc example_kwargs = 1" by (simp add: example_kwargs_def)
  have h2: "kw_ids16 example_kwargs = None" by (simp add: example_kwargs_def)
  have h5: "case kw_ids15 example_kwargs of None \<Rightarrow> True | Some xs \<Rightarrow> 12 \<le> length xs"
    by (simp add: example_kwargs_def)
  have h6: "np_int_ok (nper sub_host - 1)"
    by (simp add: np_int_ok_def sub_host_def example_host_def)
  have ex: "\<exists>p. ModflowSub_init sub_host example_kwargs = (Inr p, add_package sub_host p)"
    using sub_init_default_output_row [OF h1 h2, of sub_host] example_kwargs_arrays_ok h5 h6
    by simp
  then obtain p
    where p: "ModflowSub_init sub_host example_kwargs = (Inr p, add_package sub_host p)" ..
  have "isuboc p = 1 \<and>
        ids16 p = Some [[0, nper sub_host - 1, 0, 9999, 1, 1, 1, 1, 1, 1, 1, 1, 1, 1, 1, 1, 1]]"
    using sub_init_default_output_row [OF h1 h2, of sub_host p "add_package sub_host p"] p
    by simp
  then have "isuboc p = 1
             \<and> ids16 p = Some [[0, 2, 0, 9999, 1, 1, 1, 1, 1, 1, 1, 1, 1, 1, 1, 1, 1]]"
    by (simp add: example_host_def sub_host_def)
  with p h1 h2 h6 example_kwargs_arrays_ok show ?thesis by simp
qed

section \<open>Evaluation on the example package\<close>

lemma str_int_values:
  "str_int 0 = ''0''" "str_int 1 = ''1''" "str_int 2 = ''2''" "str_int 3 = ''3''"
  "str_int 4 = ''4''" "str_int 5 = ''5''" "str_int 20 = ''20''" "str_int 2051 = ''2051''"
  "str_int 10000 = ''10000''" "str_int 10001 = ''10001''"
  by (simp_all add: str_int_def str_nat.simps digit_char_def)

lemma replicate_12: "replicate 12 x = [x, x, x, x, x, x, x, x, x, x, x, x]"
  by (simp add: numeral_eq_Suc)

lemmas sub_init_defs = ModflowSub_init_def sub_attributes_def sub_nodelay_def sub_delay_def
  sub_output_def util_2d_def util_3d_def bindE_def np_store_def np_int_ok_def

lemmas sub_write_defs = write_file_def write_datasets_def write_output_control_def wrote_def
  raised_def write_entry_def write_layer_line_def write_dp_row_def dp_get_def bindE_def
  incr_first4_def np_wrap_def

lemma example_init:
  "ModflowSub_init sub_host example_kwargs
     = (Inr example_oc_sub, add_package sub_host example_oc_sub)"
  by (simp add: sub_init_defs example_kwargs_def sub_host_def example_host_def replicate_13
      replicate_12 example_oc_sub_def)

lemma example_write_state:
  "snd (write_file pf example_oc_sub)
     = example_oc_sub\<lparr>ids16 := Some [[1, 3, 1, 10000, 1, 1, 1, 1, 1, 1, 1, 1, 1, 1, 1, 1, 1]]\<rparr>"
  by (simp add: sub_write_defs example_oc_sub_def)

lemma example_write_ok: "fst (fst (write_file pf example_oc_sub)) = Inr ()"
  by (simp add: sub_write_defs example_oc_sub_def)

lemma example_write_again:
  "snd (fst (write_file pf (snd (write_file pf example_oc_sub))))
     \<noteq> snd (fst (write_file pf example_oc_sub))"
  unfolding example_write_state
  by (simp add: sub_write_defs example_oc_sub_def str_int_values)

text \<open>
  C9. The claim is that \<open>write_file\<close> leaves the package unchanged, so that writing twice
  gives the same output. On the package built by the constructor from \<open>example_kwargs\<close>
  (\<open>isuboc = 1\<close>, default output row) the code does otherwise: \<open>write_file\<close> returns
  normally, and afterwards the first four columns of the \<open>ids16\<close> row are
  \<open>(1, 3, 1, 10000)\<close> instead of \<open>(0, 2, 0, 9999)\<close>; a second \<open>write_file\<close> writes something
  else than the first.
\<close>

theorem sub_write_file_changes_ids16:
  "fst (ModflowSub_init sub_host example_kwargs) = Inr example_oc_sub
   \<and> ids16 example_oc_sub = Some [[0, 2, 0, 9999, 1, 1, 1, 1, 1, 1, 1, 1, 1, 1, 1, 1, 1]]
   \<and> fst (fst (write_file example_platform example_oc_sub)) = Inr ()
   \<and> ids16 (snd (write_file example_platform example_oc_sub))
       = Some [[1, 3, 1, 10000, 1, 1, 1, 1, 1, 1, 1, 1, 1, 1, 1, 1, 1]]
   \<and> snd (fst (write_file example_platform (snd (write_file example_platform example_oc_sub))))
       \<noteq> snd (fst (write_file example_platform example_oc_sub))"
proof -
  have "ids16 example_oc_sub = Some [[0, 2, 0, 9999, 1, 1, 1, 1, 1, 1, 1, 1, 1, 1, 1, 1, 1]]"
    by (simp add: example_oc_sub_def)
  moreover have "ids16 (snd (write_file example_platform example_oc_sub))
       = Some [[1, 3, 1, 10000, 1, 1, 1, 1, 1, 1, 1, 1, 1, 1, 1, 1, 1]]"
    by (simp add: example_write_state)
  ultimately show ?thesis
    using example_init example_write_ok [of example_platform]
      example_write_again [of example_platform]
    by simp
qed

section \<open>The header line of the SUB file\<close>

lemma float_of_values:
  "float_of_str ''0.0'' = Inr (PyFloat False 0 0)"
  "float_of_str ''0.2'' = Inr (PyFloat False 2 (- 1))"
  "float_of_str ''0.000001'' = Inr (PyFloat False 1 (- 6))"
  "float_of_str ''0.000006'' = Inr (PyFloat False 6 (- 6))"
  "float_of_str ''0.0006'' = Inr (PyFloat False 6 (- 4))"
  by code_simp+

lemma str_float_values:
  "str_float (PyFloat False 0 0) = ''0.0''"
  "str_float (PyFloat False 2 (- 1)) = ''0.2''"
  by code_simp+

lemma fmt_g_values:
  "fmt_g 15 6 False (PyFloat False 1 (- 6)) = ''          1e-06''"
  "fmt_g 15 6 False (PyFloat False 6 (- 6)) = ''          6e-06''"
  "fmt_g 15 6 False (PyFloat False 6 (- 4)) = ''         0.0006''"
  by code_simp+

lemma split_header:
  "split_ws ''0 0 1 1 1 20 0.0 0.2 5 0 0\<newline>''
     = [''0'', ''0'', ''1'', ''1'', ''1'', ''20'', ''0.0'', ''0.2'', ''5'', ''0'', ''0'']"
  by (simp add: split_ws_def is_space_def)

lemma split_fused_header:
  "split_ws ''0 0 1 1 1 200.0 0.2 5 0 0\<newline>''
     = [''0'', ''0'', ''1'', ''1'', ''1'', ''200.0'', ''0.2'', ''5'', ''0'', ''0'']"
  by (simp add: split_ws_def is_space_def)

lemma int_of_values:
  "int_of_str ''0'' = Inr 0" "int_of_str ''1'' = Inr 1" "int_of_str ''5'' = Inr 5"
  "int_of_str ''20'' = Inr 20" "int_of_str ''200.0'' = Inl ValueError"
  by (simp_all add: int_of_str_def strip_ws_def is_space_def digit_val_def)

lemma snd_thenW_wrote: "snd (thenW (wrote cs) b) = cs @ snd b"
  by (cases b) (simp add: wrote_def)

lemma write_datasets_header:
  "take 3 (snd (write_datasets pf self))
     = [Text (heading self @ ''\<newline>''),
        Text (str_int (isubcb self) @ '' '' @ str_int (isuboc self) @ '' ''
              @ str_int (nndb self) @ '' '' @ str_int (ndb self) @ '' ''
              @ str_int (nmz self) @ '' '' @ str_int (nn self)),
        Text (float_str pf (ac1 self) @ '' '' @ float_str pf (ac2 self) @ '' ''
              @ str_int (itmin self) @ '' '' @ str_int (idsave self) @ '' ''
              @ str_int (idrest self) @ ''\<newline>'')]"
  by (simp add: write_datasets_def snd_thenW_wrote)

text \<open>
  C2. The header line \<open>0 0 1 1 1 20 0.0 0.2 5 0 0\<close> is parsed into the eleven fields in
  their fixed order (with \<open>float('0.0')\<close> and \<open>float('0.2')\<close> as the floats). Writing the
  header of a package that holds these fields does not reproduce the eleven tokens: the
  two \<open>f.write\<close> calls of dataset 1 put nothing between \<open>nn\<close> and \<open>ac1\<close>, the line written
  is \<open>0 0 1 1 1 200.0 0.2 5 0 0\<close>, and it has ten tokens.
\<close>

theorem sub_header_written_fused:
  assumes "float_of pf ''0.0'' = Inr z0" and "float_of pf ''0.2'' = Inr z2"
      and "float_str pf z0 = ''0.0''" and "float_str pf z2 = ''0.2''"
  shows "parse_dataset1 pf ''0 0 1 1 1 20 0.0 0.2 5 0 0\<newline>''
           = Inr \<lparr> h_isubcb = 0, h_isuboc = 0, h_nndb = 1, h_ndb = 1, h_nmz = 1, h_nn = 20,
                   h_ac1 = z0, h_ac2 = z2, h_itmin = 5, h_idsave = 0, h_idrest = 0 \<rparr>
       \<and> (isubcb self = 0 \<and> isuboc self = 0 \<and> nndb self = 1 \<and> ndb self = 1 \<and> nmz self = 1
            \<and> nn self = 20 \<and> ac1 self = z0 \<and> ac2 self = z2 \<and> itmin self = 5
            \<and> idsave self = 0 \<and> idrest self = 0 \<longrightarrow>
            render (get_file_entry pf) (take 2 (drop 1 (snd (write_datasets pf self))))
              = ''0 0 1 1 1 200.0 0.2 5 0 0\<newline>'')
       \<and> split_ws ''0 0 1 1 1 200.0 0.2 5 0 0\<newline>''
           = [''0'', ''0'', ''1'', ''1'', ''1'', ''200.0'', ''0.2'', ''5'', ''0'', ''0'']"
proof (intro conjI impI)
  show "parse_dataset1 pf ''0 0 1 1 1 20 0.0 0.2 5 0 0\<newline>''
           = Inr \<lparr> h_isubcb = 0, h_isuboc = 0, h_nndb = 1, h_ndb = 1, h_nmz = 1, h_nn = 20,
                   h_ac1 = z0, h_ac2 = z2, h_itmin = 5, h_idsave = 0, h_idrest = 0 \<rparr>"
    by (simp add: parse_dataset1_def split_header int_at_def float_at_def int_of_values
          bindE_def assms)
next
  assume flds: "isubcb self = 0 \<and> isuboc self = 0 \<and> nndb self = 1 \<and> ndb self = 1
      \<and> nmz self = 1 \<and> nn self = 20 \<and> ac1 self = z0 \<and> ac2 self = z2 \<and> itmin self = 5
      \<and> idsave self = 0 \<and> idrest self = 0"
  have "take 2 (drop 1 (snd (write_datasets pf self)))
          = drop 1 (take 3 (snd (write_datasets pf self)))"
    by (simp add: drop_take)
  also have "\<dots> = [Text ''0 0 1 1 1 20'', Text ''0.0 0.2 5 0 0\<newline>'']"
    unfolding write_datasets_header using flds by (simp add: str_int_values assms)
  finally show "render (get_file_entry pf) (take 2 (drop 1 (snd (write_datasets pf self))))
              = ''0 0 1 1 1 200.0 0.2 5 0 0\<newline>''"
    by (simp add: render_def)
next
  show "split_ws ''0 0 1 1 1 200.0 0.2 5 0 0\<newline>''
           = [''0'', ''0'', ''1'', ''1'', ''1'', ''200.0'', ''0.2'', ''5'', ''0'', ''0'']"
    by (rule split_fused_header)
qed

section \<open>Loading the example file, and loading what was written\<close>

lemmas sub_load_defs = load_def parse_sub_def bindL_def returnL_def raiseL_def liftL_def readL_def
  remap_units_def load_layer_line_def load_grid_def load_rnb_def load_nodelay_def load_dp_def
  load_delay_def load_output_control_def read1d_def readline_def parse_dp_row_def nth_err_def
  int_at_def float_at_def bindE_def np_store_def np_int_ok_def np_wrap_def

lemma split_values:
  "split_ws ''1\<newline>'' = [''1'']"
  "split_ws ''CONSTANT 1.0\<newline>'' = [''CONSTANT'', ''1.0'']"
  "split_ws ''CONSTANT 100000.0\<newline>'' = [''CONSTANT'', ''100000.0'']"
  "split_ws ''CONSTANT 0.0001\<newline>'' = [''CONSTANT'', ''0.0001'']"
  "split_ws ''CONSTANT 0.001\<newline>'' = [''CONSTANT'', ''0.001'']"
  "split_ws ''CONSTANT 0.0\<newline>'' = [''CONSTANT'', ''0.0'']"
  "split_ws ''CONSTANT 1\<newline>'' = [''CONSTANT'', ''1'']"
  "split_ws ''0.000001 0.000006 0.0006\<newline>'' = [''0.000001'', ''0.000006'', ''0.0006'']"
  by (simp_all add: split_ws_def is_space_def)

lemma example_header:
  "parse_dataset1 example_platform ''0 0 1 1 1 20 0.0 0.2 5 0 0\<newline>''
     = Inr \<lparr> h_isubcb = 0, h_isuboc = 0, h_nndb = 1, h_ndb = 1, h_nmz = 1, h_nn = 20,
             h_ac1 = PyFloat False 0 0, h_ac2 = PyFloat False 2 (- 1), h_itmin = 5,
             h_idsave = 0, h_idrest = 0 \<rparr>"
  by (simp add: parse_dataset1_def split_header int_at_def float_at_def int_of_values
        bindE_def example_platform_def float_of_values)

lemma example_load:
  "fst (load example_platform (start_load sub_host example_sub_file)) = Inr example_sub"
  apply (simp add: load_def parse_sub_def bindL_def readL_def example_sub_file_def start_load_def
      liftL_def example_header)
  apply (simp add: sub_load_defs split_values int_of_values constant_load_def
      example_platform_def float_of_values sub_host_def example_host_def)
  apply (simp add: sub_init_defs example_sub_def returnL_def)
  done

lemma fmt_g_one: "fmt_g 15 6 False (PyFloat False (Suc 0) (- 6)) = ''          1e-06''"
  using fmt_g_values(1) by simp

lemma example_sub_written:
  "write_file example_platform example_sub
     = ((Inr (),
         [Text ''# Subsidence (SUB) package file for mf2005, generated by Flopy.\<newline>'',
          Text ''0 0 1 1 1 20'', Text ''0.0 0.2 5 0 0\<newline>'',
          Text ''1 '', Text ''\<newline>'', Text ''1 '', Text ''\<newline>'',
          Entry ''rnb'' 0 ''1.0'', Entry ''hc'' 0 ''100000.0'', Entry ''sfe'' 0 ''0.0001'',
          Entry ''sfv'' 0 ''0.001'', Entry ''com'' 0 ''0.0'',
          Text ''          1e-06           6e-06          0.0006    #material zone 1 data\<newline>'',
          Entry ''dstart'' 0 ''1.0'', Entry ''dhc'' 0 ''100000.0'', Entry ''dcom'' 0 ''0.0'',
          Entry ''dz'' 0 ''1.0'', Entry ''nz'' 0 ''1'']),
        example_sub)"
  by (simp add: sub_write_defs example_sub_def str_int_values example_platform_def
        str_float_values fmt_g_values fmt_g_one)

lemma example_sub_lines:
  "take 2 (lines_of (written_text example_platform example_sub))
     = [''# Subsidence (SUB) package file for mf2005, generated by Flopy.\<newline>'',
        ''0 0 1 1 1 200.0 0.2 5 0 0\<newline>'']"
  unfolding written_text_def example_sub_written
  by (simp add: render_def example_platform_def lines_of_def)

lemma load_fails_on_fused_header:
  assumes "take 2 ls = [CHR ''#'' # l0, ''0 0 1 1 1 200.0 0.2 5 0 0\<newline>'']"
  shows "fst (load pf (start_load model ls)) = Inl ValueError"
proof -
  from assms obtain rest where ls: "ls = (CHR ''#'' # l0) # ''0 0 1 1 1 200.0 0.2 5 0 0\<newline>'' # rest"
    by (cases ls; cases "tl ls") auto
  have "parse_dataset1 pf ''0 0 1 1 1 200.0 0.2 5 0 0\<newline>'' = Inl ValueError"
    by (simp add: parse_dataset1_def split_fused_header int_at_def int_of_values bindE_def)
  then show ?thesis
    by (simp add: ls load_def parse_sub_def bindL_def readL_def start_load_def liftL_def)
qed

text \<open>
  C1. The claim is the round trip \<open>write(load(write(M))) = write(M)\<close>. The package
  \<open>example_sub\<close> is what \<open>load\<close> builds from \<open>example_sub_file\<close>, and \<open>write_file\<close> writes
  it without an exception. Loading the text written raises ValueError: its header line
  is \<open>0 0 1 1 1 200.0 0.2 5 0 0\<close>, whose sixth token is not an integer. So there is no
  package to write a second time.
\<close>

theorem sub_round_trip_fails:
  "fst (load example_platform (start_load sub_host example_sub_file)) = Inr example_sub
   \<and> fst (fst (write_file example_platform example_sub)) = Inr ()
   \<and> take 2 (lines_of (written_text example_platform example_sub))
       = [''# Subsidence (SUB) package file for mf2005, generated by Flopy.\<newline>'',
          ''0 0 1 1 1 200.0 0.2 5 0 0\<newline>'']
   \<and> fst (load example_platform
            (start_load sub_host (lines_of (written_text example_platform example_sub))))
       = Inl ValueError"
  using example_load example_sub_lines load_fails_on_fused_header [OF example_sub_lines]
  by (simp add: example_sub_written)

theorem sub_header_written_fused_witness:
  "float_of example_platform ''0.0'' = Inr (PyFloat False 0 0)
   \<and> float_of example_platform ''0.2'' = Inr (PyFloat False 2 (- 1))
   \<and> float_str example_platform (PyFloat False 0 0) = ''0.0''
   \<and> float_str example_platform (PyFloat False 2 (- 1)) = ''0.2''
   \<and> fst (load example_platform (start_load sub_host example_sub_file)) = Inr example_sub
   \<and> isubcb example_sub = 0 \<and> isuboc example_sub = 0 \<and> nndb example_sub = 1
   \<and> ndb example_sub = 1 \<and> nmz example_sub = 1 \<and> nn example_sub = 20
   \<and> ac1 example_sub = PyFloat False 0 0 \<and> ac2 example_sub = PyFloat False 2 (- 1)
   \<and> itmin example_sub = 5 \<and> idsave example_sub = 0 \<and> idrest example_sub = 0
   \<and> render (get_file_entry example_platform)
        (take 2 (drop 1 (snd (write_datasets example_platform example_sub))))
       = ''0 0 1 1 1 200.0 0.2 5 0 0\<newline>''"
proof -
  have h: "float_of example_platform ''0.0'' = Inr (PyFloat False 0 0)"
    "float_of example_platform ''0.2'' = Inr (PyFloat False 2 (- 1))"
    "float_str example_platform (PyFloat False 0 0) = ''0.0''"
    "float_str example_platform (PyFloat False 2 (- 1)) = ''0.2''"
    by (simp_all add: example_platform_def float_of_values str_float_values)
  have flds: "isubcb example_sub = 0 \<and> isuboc example_sub = 0 \<and> nndb example_sub = 1
   \<and> ndb example_sub = 1 \<and> nmz example_sub = 1 \<and> nn example_sub = 20
   \<and> ac1 example_sub = PyFloat False 0 0 \<and> ac2 example_sub = PyFloat False 2 (- 1)
   \<and> itmin example_sub = 5 \<and> idsave example_sub = 0 \<and> idrest example_sub = 0"
    by (simp add: example_sub_def)
  from sub_header_written_fused [OF h, of example_sub] flds
  have "render (get_file_entry example_platform)
        (take 2 (drop 1 (snd (write_datasets example_platform example_sub))))
       = ''0 0 1 1 1 200.0 0.2 5 0 0\<newline>''"
    by simp
  with h flds example_load show ?thesis by simp
qed

section \<open>Both counts at zero\<close>

lemma write_file_without_ln:
  assumes "ln self = None"
  shows "write_file pf self
           = ((Inl AttributeError,
               [Text (heading self @ ''\<newline>''),
                Text (str_int (isubcb self) @ '' '' @ str_int (isuboc self) @ '' ''
                      @ str_int (nndb self) @ '' '' @ str_int (ndb self) @ '' ''
                      @ str_int (nmz self) @ '' '' @ str_int (nn self)),
                Text (float_str pf (ac1 self) @ '' '' @ float_str pf (ac2 self) @ '' ''
                      @ str_int (itmin self) @ '' '' @ str_int (idsave self) @ '' ''
                      @ str_int (idrest self) @ ''\<newline>'')]),
              self)"
  using assms
  by (simp add: write_file_def write_datasets_def write_layer_line_def wrote_def raised_def)

text \<open>
  C3. A SUB file whose header declares \<open>nndb = 0\<close> and \<open>ndb = 0\<close> (and no output control,
  no restart unit): \<open>load\<close> reads the header line and nothing else, so no layer line, no
  grid-array block and no material-zone row is consumed; the package it registers has
  \<open>ln\<close>, \<open>hc\<close>, \<open>sfe\<close>, \<open>sfv\<close>, \<open>com\<close>, \<open>ldn\<close>, \<open>rnb\<close>, \<open>dstart\<close>, \<open>dhc\<close>, \<open>dcom\<close>, \<open>dz\<close>, \<open>nz\<close> and
  \<open>dp\<close> absent. Writing that package does not emit a file without those sections: after
  the heading and dataset 1, \<open>write_file\<close> raises AttributeError at \<open>self.ln.array\<close>.
\<close>

theorem sub_zero_counts_load_then_write:
  assumes "line \<noteq> [] \<and> hd line \<noteq> CHR ''#''"
      and "parse_dataset1 pf line = Inr h"
      and "h_nndb h = 0" and "h_ndb h = 0" and "h_isuboc h = 0" and "h_idrest h = 0"
  shows "\<exists>self. load pf \<lparr>handle = line # rest, host = model, ext_unit_dict = d\<rparr>
                  = (Inr self, \<lparr>handle = rest, host = add_package model self,
                                ext_unit_dict = d\<rparr>)
            \<and> ln self = None \<and> hc self = None \<and> sfe self = None \<and> sfv self = None
            \<and> com self = None \<and> ldn self = None \<and> rnb self = None \<and> dstart self = None
            \<and> dhc self = None \<and> dcom self = None \<and> dz self = None \<and> nz self = None
            \<and> dp self = None
            \<and> fst (fst (write_file pf self)) = Inl AttributeError
            \<and> length (snd (fst (write_file pf self))) = 3"
proof -
  obtain c cs where line: "line = c # cs" "c \<noteq> CHR ''#''"
    using assms(1) by (cases line) auto
  let ?h = "(if 0 < h_idsave (if 0 < h_isubcb h then h\<lparr>h_isubcb := 53\<rparr> else h)
             then (if 0 < h_isubcb h then h\<lparr>h_isubcb := 53\<rparr> else h)\<lparr>h_idsave := 2052\<rparr>
             else (if 0 < h_isubcb h then h\<lparr>h_isubcb := 53\<rparr> else h))"
  have hh: "h_nndb ?h = 0" "h_ndb ?h = 0" "h_isuboc ?h = 0" "h_idrest ?h = 0"
    using assms(3-6) by simp_all
  have remap: "remap_units h s = (Inr ?h, s)" for s
    using hh(4) by (simp add: remap_units_def Let_def)
  have "\<exists>kw. parse_sub pf \<lparr>handle = line # rest, host = model, ext_unit_dict = d\<rparr>
             = (Inr kw, \<lparr>handle = rest, host = model, ext_unit_dict = d\<rparr>)
          \<and> kw_nndb kw = 0 \<and> kw_ndb kw = 0 \<and> kw_isuboc kw = 0 \<and> kw_dp kw = None"
    using assms(2) hh
    by (simp add: parse_sub_def bindL_def readL_def liftL_def line remap load_layer_line_def
          load_rnb_def load_nodelay_def load_dp_def load_delay_def load_output_control_def
          returnL_def)
  then obtain kw
    where parse: "parse_sub pf \<lparr>handle = line # rest, host = model, ext_unit_dict = d\<rparr>
             = (Inr kw, \<lparr>handle = rest, host = model, ext_unit_dict = d\<rparr>)"
      and kw: "kw_nndb kw = 0" "kw_ndb kw = 0" "kw_isuboc kw = 0" "kw_dp kw = None"
    by blast
  have "\<exists>self. sub_attributes model kw = Inr self
      \<and> ln self = None \<and> hc self = None \<and> sfe self = None \<and> sfv self = None
      \<and> com self = None \<and> ldn self = None \<and> rnb self = None \<and> dstart self = None
      \<and> dhc self = None \<and> dcom self = None \<and> dz self = None \<and> nz self = None
      \<and> dp self = None"
    using kw by (simp add: sub_attributes_def sub_nodelay_def sub_delay_def sub_output_def bindE_def)
  then obtain self where attrs: "sub_attributes model kw = Inr self"
    and flds: "ln self = None" "hc self = None" "sfe self = None" "sfv self = None"
      "com self = None" "ldn self = None" "rnb self = None" "dstart self = None"
      "dhc self = None" "dcom self = None" "dz self = None" "nz self = None" "dp self = None"
    by blast
  have "load pf \<lparr>handle = line # rest, host = model, ext_unit_dict = d\<rparr>
          = (Inr self, \<lparr>handle = rest, host = add_package model self, ext_unit_dict = d\<rparr>)"
    by (simp add: load_def bindL_def parse ModflowSub_init_def attrs)
  moreover have "fst (fst (write_file pf self)) = Inl AttributeError"
    "length (snd (fst (write_file pf self))) = 3"
    by (simp_all add: write_file_without_ln [OF flds(1)])
  ultimately show ?thesis using flds by blast
qed

lemma split_zero_header:
  "split_ws ''0 0 0 0 1 20 0.0 0.2 5 0 0\<newline>''
     = [''0'', ''0'', ''0'', ''0'', ''1'', ''20'', ''0.0'', ''0.2'', ''5'', ''0'', ''0'']"
  by (simp add: split_ws_def is_space_def)

lemma zero_header:
  "parse_dataset1 example_platform ''0 0 0 0 1 20 0.0 0.2 5 0 0\<newline>''
     = Inr \<lparr> h_isubcb = 0, h_isuboc = 0, h_nndb = 0, h_ndb = 0, h_nmz = 1, h_nn = 20,
             h_ac1 = PyFloat False 0 0, h_ac2 = PyFloat False 2 (- 1), h_itmin = 5,
             h_idsave = 0, h_idrest = 0 \<rparr>"
  by (simp add: parse_dataset1_def split_zero_header int_at_def float_at_def int_of_values
        bindE_def example_platform_def float_of_values)

theorem sub_zero_counts_load_then_write_witness:
  "parse_dataset1 example_platform ''0 0 0 0 1 20 0.0 0.2 5 0 0\<newline>''
     = Inr \<lparr> h_isubcb = 0, h_isuboc = 0, h_nndb = 0, h_ndb = 0, h_nmz = 1, h_nn = 20,
             h_ac1 = PyFloat False 0 0, h_ac2 = PyFloat False 2 (- 1), h_itmin = 5,
             h_idsave = 0, h_idrest = 0 \<rparr>
   \<and> (\<exists>self. load example_platform
                 \<lparr>handle = [''0 0 0 0 1 20 0.0 0.2 5 0 0\<newline>''], host = sub_host,
                  ext_unit_dict = None\<rparr>
               = (Inr self, \<lparr>handle = [], host = add_package sub_host self,
                             ext_unit_dict = None\<rparr>)
          \<and> ln self = None \<and> ldn self = None \<and> rnb self = None \<and> dp self = None
          \<and> fst (fst (write_file example_platform self)) = Inl AttributeError)"
proof -
  have nc: "''0 0 0 0 1 20 0.0 0.2 5 0 0\<newline>'' \<noteq> []
            \<and> hd ''0 0 0 0 1 20 0.0 0.2 5 0 0\<newline>'' \<noteq> CHR ''#''"
    by simp
  from sub_zero_counts_load_then_write [OF nc zero_header, of "[]" sub_host None]
  show ?thesis using zero_header by auto
qed

section \<open>Registration happens after the whole file is parsed\<close>

lemma keeps_packagesD:
  "keeps_packages m \<Longrightarrow> m s = (r, s') \<Longrightarrow> packagelist (host s') = packagelist (host s)"
  unfolding keeps_packages_def by blast

lemma keeps_returnL: "keeps_packages (returnL x)"
  by (simp add: keeps_packages_def returnL_def)

lemma keeps_raiseL: "keeps_packages (raiseL e)"
  by (simp add: keeps_packages_def raiseL_def)

lemma keeps_liftL: "keeps_packages (liftL r)"
  by (simp add: keeps_packages_def liftL_def)

lemma keeps_readL: "keeps_packages (readL rd)"
  by (auto simp: keeps_packages_def readL_def split: sum.splits prod.splits)

lemma keeps_bindL:
  assumes "keeps_packages m" and "\<And>x. keeps_packages (f x)"
  shows "keeps_packages (bindL m f)"
  unfolding keeps_packages_def
proof (intro allI impI)
  fix s r s'
  assume run: "bindL m f s = (r, s')"
  obtain r1 s1 where m: "m s = (r1, s1)" by (cases "m s")
  with assms(1) have p1: "packagelist (host s1) = packagelist (host s)"
    by (rule keeps_packagesD)
  show "packagelist (host s') = packagelist (host s)"
  proof (cases r1)
    case (Inl e)
    with run m p1 show ?thesis by (simp add: bindL_def)
  next
    case (Inr x)
    with run m have "f x s1 = (r, s')" by (simp add: bindL_def)
    with assms(2) [of x] have "packagelist (host s') = packagelist (host s1)"
      by (rule keeps_packagesD)
    with p1 show ?thesis by simp
  qed
qed

lemma keeps_if:
  "keeps_packages a \<Longrightarrow> keeps_packages b \<Longrightarrow> keeps_packages (if c then a else b)"
  by simp

lemma keeps_forL:
  assumes "\<And>k. keeps_packages (body k)"
  shows "keeps_packages (forL ks body)"
  by (induction ks) (simp_all add: keeps_returnL keeps_bindL assms)

lemma keeps_load_grid: "keeps_packages (load_grid pf is_int label)"
  by (auto simp: keeps_packages_def load_grid_def readL_def split: sum.splits prod.splits)

lemma keeps_remap_units: "keeps_packages (remap_units h)"
  by (auto simp: keeps_packages_def remap_units_def Let_def split: option.splits if_splits)

lemma keeps_register_units:
  "keeps_packages (register_units ks v :: ('p, int list) loading)"
proof (induction ks arbitrary: v)
  case Nil
  then show ?case by (simp add: keeps_returnL)
next
  case (Cons k ks)
  show ?case
  proof (cases "k < length v")
    case True
    have "packagelist (host s') = packagelist (host s)"
      if "register_units ks (v[k := 2051])
            (s\<lparr>host := add_pop_key_list (host s) (v ! k)\<rparr>) = (r, s')"
      for s s' :: "'p load_state" and r
      using keeps_packagesD [OF Cons.IH [of "v[k := 2051]"] that]
      by (simp add: add_pop_key_list_def)
    with True show ?thesis by (simp add: keeps_packages_def)
  next
    case False
    then show ?thesis by (simp add: keeps_raiseL)
  qed
qed

lemma keeps_load_output_control: "keeps_packages (load_output_control h)"
proof -
  have inner: "keeps_packages
      (bindL (readL (read1d 12)) (\<lambda>v.
       bindL (register_units [1, 3, 5, 7, 9, 11] v) (\<lambda>ids15'.
       bindL (forL [0..<nat (h_isuboc h)] (\<lambda>k.
                bindL (readL (read1d 17)) (\<lambda>t. returnL (decr_first4 t)))) (\<lambda>rows.
       returnL (Some ids15', Some (Ids2 rows))))))"
    by (intro keeps_bindL keeps_readL keeps_register_units keeps_forL keeps_returnL)
  show ?thesis
    using inner
    by (auto simp: load_output_control_def keeps_packages_def returnL_def)
qed

lemma keeps_parse_sub: "keeps_packages (parse_sub pf)"
  unfolding parse_sub_def load_layer_line_def load_rnb_def load_nodelay_def load_dp_def
    load_delay_def
  by (intro keeps_bindL keeps_readL keeps_liftL keeps_remap_units keeps_if keeps_forL
        keeps_load_grid keeps_returnL keeps_raiseL keeps_load_output_control)
     (simp_all add: keeps_returnL split: prod.splits)

text \<open>
  C8. If \<open>load\<close> fails, whatever the point of failure and the exception, the host model's
  package list is what it was before the call: \<open>add_package\<close> is the last statement of the
  constructor, which \<open>load\<close> calls only after the whole file has been parsed.
\<close>

theorem sub_failed_load_registers_nothing:
  assumes "load pf s = (Inl e, s')"
  shows "packagelist (host s') = packagelist (host s)"
proof -
  obtain r1 s1 where parse: "parse_sub pf s = (r1, s1)" by (cases "parse_sub pf s")
  with keeps_parse_sub [of pf] have p1: "packagelist (host s1) = packagelist (host s)"
    by (rule keeps_packagesD)
  show ?thesis
  proof (cases r1)
    case (Inl e1)
    with assms parse p1 show ?thesis by (simp add: load_def bindL_def)
  next
    case (Inr kw)
    with assms parse p1 show ?thesis
      by (auto simp: load_def bindL_def ModflowSub_init_def split: sum.splits)
  qed
qed

lemma split_oc_lines:
  "split_ws ''0 1 0 0 1 20 0.0 0.2 5 0 0\<newline>''
     = [''0'', ''1'', ''0'', ''0'', ''1'', ''20'', ''0.0'', ''0.2'', ''5'', ''0'', ''0'']"
  "split_ws ''0 51 0 52 0 53 0 54 0 55 0 56\<newline>''
     = [''0'', ''51'', ''0'', ''52'', ''0'', ''53'', ''0'', ''54'', ''0'', ''55'', ''0'', ''56'']"
  by (simp_all add: split_ws_def is_space_def)

lemma int_of_units:
  "int_of_str ''51'' = Inr 51" "int_of_str ''52'' = Inr 52" "int_of_str ''53'' = Inr 53"
  "int_of_str ''54'' = Inr 54" "int_of_str ''55'' = Inr 55" "int_of_str ''56'' = Inr 56"
  by (simp_all add: int_of_str_def strip_ws_def is_space_def digit_val_def)

lemma truncated_file_load:
  "load example_platform
     (start_load (example_host [example_sub])
        [''0 1 0 0 1 20 0.0 0.2 5 0 0\<newline>'', ''0 51 0 52 0 53 0 54 0 55 0 56\<newline>''])
   = (Inl ValueError,
      \<lparr>handle = [],
       host = (example_host [example_sub])\<lparr>pop_key_list := [51, 52, 53, 54, 55, 56]\<rparr>,
       ext_unit_dict = None\<rparr>)"
  apply (simp add: load_def parse_sub_def bindL_def readL_def start_load_def liftL_def
      parse_dataset1_def split_oc_lines int_at_def float_at_def int_of_values bindE_def
      example_platform_def float_of_values)
  apply (simp add: sub_load_defs split_oc_lines int_of_values int_of_units add_pop_key_list_def
      example_host_def)
  done

theorem sub_failed_load_registers_nothing_witness:
  "load example_platform
     (start_load (example_host [example_sub])
        [''0 1 0 0 1 20 0.0 0.2 5 0 0\<newline>'', ''0 51 0 52 0 53 0 54 0 55 0 56\<newline>''])
   = (Inl ValueError,
      \<lparr>handle = [],
       host = (example_host [example_sub])\<lparr>pop_key_list := [51, 52, 53, 54, 55, 56]\<rparr>,
       ext_unit_dict = None\<rparr>)
   \<and> packagelist (host (snd (load example_platform
         (start_load (example_host [example_sub])
            [''0 1 0 0 1 20 0.0 0.2 5 0 0\<newline>'', ''0 51 0 52 0 53 0 54 0 55 0 56\<newline>'']))))
       = [example_sub]"
  using sub_failed_load_registers_nothing [OF truncated_file_load] truncated_file_load
  by (simp add: start_load_def example_host_def)

section \<open>Layer indices: one-based in the file, zero-based in the package\<close>






































end
